theory Spec2Isabelle
  imports Main "HOL-Library.Multiset"
begin

section \<open>JavaScript values used by the sources\<close>

text \<open>
  Strings are byte lists. \<open>toLowerCase\<close> maps the ASCII capitals to their lower-case
  letters and leaves every other byte alone (infohashes, service names and file
  extensions are ASCII). A property that may be \<open>undefined\<close> or \<open>null\<close> is an
  \<open>option\<close>; the truthiness tests of the source (\<open>x || d\<close>, \<open>!x\<close>) are written out:
  the empty string and the number zero are falsy.
\<close>

definition toLowerCase_char :: "char \<Rightarrow> char" where
  "toLowerCase_char c =
     (case map_of (zip ''ABCDEFGHIJKLMNOPQRSTUVWXYZ'' ''abcdefghijklmnopqrstuvwxyz'') c of
        None \<Rightarrow> c
      | Some d \<Rightarrow> d)"

definition toLowerCase :: "string \<Rightarrow> string" where
  "toLowerCase s = map toLowerCase_char s"

definition endsWith :: "string \<Rightarrow> string \<Rightarrow> bool" where
  "endsWith s suf = (length suf \<le> length s \<and> drop (length s - length suf) s = suf)"

text \<open>\<open>x || ''\<close> followed by \<open>String(...)\<close>, for a property that holds a string when present.\<close>

definition str_or_empty :: "string option \<Rightarrow> string" where
  "str_or_empty x = (case x of None \<Rightarrow> [] | Some s \<Rightarrow> s)"

text \<open>\<open>x || null\<close> on a string property: the empty string becomes \<open>null\<close>.\<close>

definition str_or_null :: "string option \<Rightarrow> string option" where
  "str_or_null x = (case x of None \<Rightarrow> None | Some s \<Rightarrow> if s = [] then None else Some s)"

definition truthy_str :: "string option \<Rightarrow> bool" where
  "truthy_str x = (case x of None \<Rightarrow> False | Some s \<Rightarrow> s \<noteq> [])"

text \<open>\<open>x || d\<close> on a numeric property: \<open>undefined\<close> and \<open>0\<close> give \<open>d\<close>.\<close>

definition num_or :: "int option \<Rightarrow> int \<Rightarrow> int" where
  "num_or x d = (case x of None \<Rightarrow> d | Some n \<Rightarrow> if n = 0 then d else n)"

section \<open>The persistent cache store (lib/common/mongo-cache.js)\<close>

record mongo_config =
  MONGO_CACHE_ENABLED :: bool
  MONGO_URI :: "string option"
  MONGO_CACHE_TTL_DAYS :: "int option"

text \<open>A stored document: the fields \<open>$set\<close> and \<open>$setOnInsert\<close> write. Times are in ms.\<close>

record cache_doc =
  doc_service :: string
  doc_hash :: string
  doc_fileName :: "string option"
  doc_size :: "int option"
  doc_data :: "string option"
  doc_releaseKey :: "string option"
  doc_category :: "string option"
  doc_resolution :: "string option"
  doc_updatedAt :: int
  doc_expiresAt :: int
  doc_createdAt :: int

text \<open>The argument of an upsert: \<open>{ service, hash, fileName?, size?, data?, ... }\<close>.\<close>

record cache_record =
  rec_service :: "string option"
  rec_hash :: "string option"
  rec_fileName :: "string option"
  rec_size :: "int option"
  rec_data :: "string option"
  rec_releaseKey :: "string option"
  rec_category :: "string option"
  rec_resolution :: "string option"

text \<open>
  What an operation of the module rejects with: an error of the driver, or the
  \<open>TypeError\<close> of reading a property of \<open>undefined\<close> or \<open>null\<close>.
\<close>

datatype store_error = TransportError string | TypeError string

text \<open>
  The database behind the driver: the documents of the collection, and whether
  connecting (\<open>client.connect\<close>, \<open>createIndex\<close>), writing (\<open>updateOne\<close>,
  \<open>bulkWrite\<close>) or reading (\<open>aggregate\<close>, \<open>find\<close>, \<open>findOne\<close>) rejects, with the message.
  An operation of the module that rejects is \<open>Inl\<close>.
\<close>

record mongo_backend =
  connect_error :: "string option"
  write_error :: "string option"
  read_error :: "string option"
  docs :: "cache_doc list"

definition isEnabled :: "mongo_config \<Rightarrow> bool" where
  "isEnabled cfg = (MONGO_CACHE_ENABLED cfg \<and> truthy_str (MONGO_URI cfg))"

definition initMongo :: "mongo_config \<Rightarrow> mongo_backend \<Rightarrow> store_error + cache_doc list option" where
  "initMongo cfg be =
     (if \<not> isEnabled cfg then Inr None
      else case connect_error be of
             Some msg \<Rightarrow> Inl (TransportError msg)
           | None \<Rightarrow> Inr (Some (docs be)))"

definition getCollection :: "mongo_config \<Rightarrow> mongo_backend \<Rightarrow> store_error + cache_doc list option" where
  "getCollection cfg be =
     (if \<not> isEnabled cfg then Inr None
      else case initMongo cfg be of
             Inl e \<Rightarrow> Inl e
           | Inr _ \<Rightarrow> Inr (Some (docs be)))"

definition ttlDate :: "mongo_config \<Rightarrow> int \<Rightarrow> int" where
  "ttlDate cfg now = now + num_or (MONGO_CACHE_TTL_DAYS cfg) 30 * 24 * 60 * 60 * 1000"

text \<open>The \<open>$set\<close> part of the update, on a document that matched the filter.\<close>

definition set_fields :: "int \<Rightarrow> int \<Rightarrow> string \<Rightarrow> string \<Rightarrow> cache_record \<Rightarrow> cache_doc \<Rightarrow> cache_doc" where
  "set_fields now expiresAt service hash r d =
     d\<lparr>doc_service := service, doc_hash := hash,
       doc_fileName := str_or_null (rec_fileName r),
       doc_size := rec_size r,
       doc_data := str_or_null (rec_data r),
       doc_releaseKey := str_or_null (rec_releaseKey r),
       doc_category := str_or_null (rec_category r),
       doc_resolution := str_or_null (rec_resolution r),
       doc_updatedAt := now, doc_expiresAt := expiresAt\<rparr>"

definition inserted_doc :: "int \<Rightarrow> int \<Rightarrow> string \<Rightarrow> string \<Rightarrow> cache_record \<Rightarrow> cache_doc" where
  "inserted_doc now expiresAt service hash r =
     \<lparr>doc_service = service, doc_hash = hash,
      doc_fileName = str_or_null (rec_fileName r),
      doc_size = rec_size r,
      doc_data = str_or_null (rec_data r),
      doc_releaseKey = str_or_null (rec_releaseKey r),
      doc_category = str_or_null (rec_category r),
      doc_resolution = str_or_null (rec_resolution r),
      doc_updatedAt = now, doc_expiresAt = expiresAt, doc_createdAt = now\<rparr>"

text \<open>\<open>updateOne({ service, hash }, update, { upsert: true })\<close> on the collection.\<close>

fun updateOne :: "int \<Rightarrow> int \<Rightarrow> string \<Rightarrow> string \<Rightarrow> cache_record \<Rightarrow> cache_doc list \<Rightarrow> cache_doc list" where
  "updateOne now expiresAt service hash r [] = [inserted_doc now expiresAt service hash r]"
| "updateOne now expiresAt service hash r (d # ds) =
     (if doc_service d = service \<and> doc_hash d = hash
      then set_fields now expiresAt service hash r d # ds
      else d # updateOne now expiresAt service hash r ds)"

text \<open>
  The argument \<open>record\<close> of an upsert is \<open>None\<close> when it is \<open>undefined\<close> or \<open>null\<close>: reading
  a property of it (\<open>record.hash\<close>, \<open>record.service\<close>) then throws a \<open>TypeError\<close>.

  The body of the \<open>try\<close> of \<open>upsertCachedMagnet\<close>: the result, or the error thrown inside
  it, with the collection afterwards. \<open>record.service\<close> is read after the collection
  was obtained.
\<close>

definition upsertCachedMagnet_try ::
  "mongo_config \<Rightarrow> mongo_backend \<Rightarrow> int \<Rightarrow> cache_record option \<Rightarrow> (store_error + bool) \<times> cache_doc list" where
  "upsertCachedMagnet_try cfg be now record =
     (case getCollection cfg be of
        Inl e \<Rightarrow> (Inl e, docs be)
      | Inr None \<Rightarrow> (Inr False, docs be)
      | Inr (Some c) \<Rightarrow>
          (case record of
             None \<Rightarrow> (Inl (TypeError ''Cannot read properties of undefined (reading service)''), c)
           | Some r \<Rightarrow>
               (let service = toLowerCase (str_or_empty (rec_service r));
                    hash = toLowerCase (str_or_empty (rec_hash r))
                in if service = [] \<or> hash = [] then (Inr False, c)
                   else case write_error be of
                          Some msg \<Rightarrow> (Inl (TransportError msg), c)
                        | None \<Rightarrow> (Inr True, updateOne now (ttlDate cfg now) service hash r c))))"

text \<open>
  \<open>upsertCachedMagnet\<close>. When the store is disabled the log line reads \<open>record.hash\<close>
  before the \<open>try\<close>, so that an absent record rejects the call; when it is enabled the
  record is read inside the \<open>try\<close>, whose \<open>catch\<close> returns \<open>false\<close>.
\<close>

definition upsertCachedMagnet ::
  "mongo_config \<Rightarrow> mongo_backend \<Rightarrow> int \<Rightarrow> cache_record option \<Rightarrow> (store_error + bool) \<times> cache_doc list" where
  "upsertCachedMagnet cfg be now record =
     (if \<not> isEnabled cfg
      then (case record of
              None \<Rightarrow> (Inl (TypeError ''Cannot read properties of undefined (reading hash)''), docs be)
            | Some r \<Rightarrow> (Inr False, docs be))
      else case upsertCachedMagnet_try cfg be now record of
             (Inl error, c) \<Rightarrow> (Inr False, c)
           | (Inr b, c) \<Rightarrow> (Inr b, c))"





text \<open>
  \<open>getCachedHashes\<close>: \<open>hashes\<close> is \<open>None\<close> when the argument is absent or not an array; an
  element is \<open>None\<close> when it is \<open>undefined\<close> or \<open>null\<close>. The aggregation matches the
  documents of the service whose hash is among the normalised ones and collects their
  hashes. Nothing here catches: a rejected connection or read rejects the call.
\<close>

definition normalised_hashes :: "string option list \<Rightarrow> string list" where
  "normalised_hashes hashes = filter (\<lambda>h. h \<noteq> []) (map (\<lambda>h. toLowerCase (str_or_empty h)) hashes)"

definition getCachedHashes ::
  "mongo_config \<Rightarrow> mongo_backend \<Rightarrow> string option \<Rightarrow> string option list option \<Rightarrow> store_error + string set" where
  "getCachedHashes cfg be service hashes =
     (if \<not> isEnabled cfg then Inr {}
      else case getCollection cfg be of
             Inl e \<Rightarrow> Inl e
           | Inr c \<Rightarrow>
               (case (c, hashes) of
                  (None, _) \<Rightarrow> Inr {}
                | (_, None) \<Rightarrow> Inr {}
                | (Some c, Some hs) \<Rightarrow>
                    if length hs = 0 then Inr {}
                    else let lower = normalised_hashes hs
                         in if length lower = 0 then Inr {}
                            else case read_error be of
                                   Some msg \<Rightarrow> Inl (TransportError msg)
                                 | None \<Rightarrow>
                                     Inr (set (map doc_hash
                                       (filter (\<lambda>d. doc_service d = toLowerCase (str_or_empty service)
                                                    \<and> doc_hash d \<in> set lower) c)))))"


text \<open>
  Counts per category and per category and resolution: the objects \<open>byCategory\<close> and
  \<open>byCategoryResolution\<close> are maps from their keys, an absent key being \<open>undefined\<close>.
\<close>

record release_counts =
  byCategory :: "string \<rightharpoonup> nat"
  byCategoryResolution :: "string \<rightharpoonup> (string \<rightharpoonup> nat)"
  total :: nat

definition empty_counts :: release_counts where
  "empty_counts = \<lparr>byCategory = Map.empty, byCategoryResolution = Map.empty, total = 0\<rparr>"

text \<open>\<open>m[k] || 0\<close> and \<open>m[k] || {}\<close>.\<close>

definition count_or_0 :: "nat option \<Rightarrow> nat" where
  "count_or_0 x = (case x of None \<Rightarrow> 0 | Some n \<Rightarrow> n)"

definition obj_or_empty :: "(string \<rightharpoonup> nat) option \<Rightarrow> (string \<rightharpoonup> nat)" where
  "obj_or_empty x = (case x of None \<Rightarrow> Map.empty | Some m \<Rightarrow> m)"

definition str_or :: "string option \<Rightarrow> string \<Rightarrow> string" where
  "str_or x d = (case x of None \<Rightarrow> d | Some s \<Rightarrow> if s = [] then d else s)"

text \<open>One turn of the loop over the cursor.\<close>

definition count_doc :: "cache_doc \<Rightarrow> release_counts \<Rightarrow> release_counts" where
  "count_doc doc acc =
     (let cat = str_or (doc_category doc) ''Other'';
          res = str_or (doc_resolution doc) ''unknown'';
          byRes = obj_or_empty (byCategoryResolution acc cat)
      in \<lparr>byCategory = (byCategory acc)(cat \<mapsto> count_or_0 (byCategory acc cat) + 1),
          byCategoryResolution =
            (byCategoryResolution acc)(cat \<mapsto> byRes(res \<mapsto> count_or_0 (byRes res) + 1)),
          total = total acc + 1\<rparr>)"

definition getReleaseCounts ::
  "mongo_config \<Rightarrow> mongo_backend \<Rightarrow> string option \<Rightarrow> string option \<Rightarrow> store_error + release_counts" where
  "getReleaseCounts cfg be service releaseKey =
     (if \<not> isEnabled cfg then Inr empty_counts
      else case getCollection cfg be of
             Inl e \<Rightarrow> Inl e
           | Inr c \<Rightarrow>
               (case c of
                  None \<Rightarrow> Inr empty_counts
                | Some c \<Rightarrow>
                    if \<not> truthy_str service \<or> \<not> truthy_str releaseKey then Inr empty_counts
                    else let svc = toLowerCase (str_or_empty service);
                             rel = str_or_empty releaseKey
                         in case read_error be of
                              Some msg \<Rightarrow> Inr empty_counts
                            | None \<Rightarrow>
                                Inr (fold count_doc
                                      (filter (\<lambda>d. doc_service d = svc \<and> doc_releaseKey d = Some rel) c)
                                      empty_counts)))"

section \<open>Torrents, provider files and formatted results (part_000)\<close>

text \<open>
  The objects of the search are duck-typed: a personal file, a producer's candidate
  and a pack result carry different subsets of these properties. \<open>isPersonal\<close> is only
  read through \<open>!t.isPersonal\<close> and \<open>t.isPersonal || false\<close>, so its absence is \<open>False\<close>.
\<close>

record episode_hint =
  filePath :: "string option"
  fileBytes :: "int option"
  hint_torrentId :: "string option"
  hint_fileId :: "int option"

record torrent =
  t_Title :: "string option"
  t_name :: "string option"
  t_InfoHash :: "string option"
  t_hash :: "string option"
  t_Size :: "int option"
  t_size :: "int option"
  t_filesize :: "int option"
  t_Seeders :: "int option"
  t_seeders :: "int option"
  t_Tracker :: "string option"
  t_tracker :: "string option"
  t_isPersonal :: bool
  t_isCached :: "bool option"
  t_category :: "string option"
  t_resolution :: "string option"
  t_episodeFileHint :: "episode_hint option"
  t_searchableName :: "string option"
  t_Langs :: "string list option"
  t_id :: "string option"
  t_torrentId :: "string option"
  t_fileId :: "int option"
  t_isFromPack :: bool
  t_packHash :: "string option"

text \<open>What \<open>PTT.parse\<close> returns, as far as this file reads it.\<close>

datatype ptt_episode = EpUndefined | EpNumber int | EpArray "int list"

record parsed_title =
  ptt_title :: "string option"
  ptt_season :: "int option"
  ptt_episode :: ptt_episode
  ptt_seasons :: bool

text \<open>
  The helpers this file imports from modules that are not part of the sources at hand
  (\<open>util/parse-torrent-title.js\<close>, \<open>common/torrent-utils.js\<close>, \<open>util/episodeMatcher.js\<close>)
  and the two library calls of \<open>formatCachedResult\<close> are parameters of the model.
  \<open>resolutionOrder\<close> is the rank table, an absent key being \<open>undefined\<close>;
  \<open>encodeHint\<close> is the base64 of the JSON of the hint payload, \<open>None\<close> when it throws.
\<close>

record utils =
  PTT_parse :: "string \<Rightarrow> parsed_title"
  isValidVideo :: "string \<Rightarrow> int \<Rightarrow> int \<Rightarrow> bool"
  isValidTorrentTitle :: "string option \<Rightarrow> bool"
  getResolutionFromName :: "string option \<Rightarrow> string"
  resolutionOrder :: "string \<rightharpoonup> int"
  isSeriesLikeTitle :: "string \<Rightarrow> bool"
  encodeHint :: "string \<Rightarrow> episode_hint \<Rightarrow> string option"

record result =
  r_name :: string
  r_info :: parsed_title
  r_size :: int
  r_seeders :: int
  r_url :: string
  r_source :: string
  r_hash :: string
  r_tracker :: string
  r_isPersonal :: bool
  r_isCached :: "bool option"
  r_languages :: "string list"
  r_searchableName :: "string option"
  r_episodeHint :: "episode_hint option"
  r_id :: "string option"
  r_torrentId :: "string option"
  r_fileId :: "int option"

text \<open>\<open>a || b\<close> on two properties that hold a string, and on two that hold a number.\<close>

definition str_orelse :: "string option \<Rightarrow> string option \<Rightarrow> string option" where
  "str_orelse a b = (if truthy_str a then a else b)"

definition truthy_num :: "int option \<Rightarrow> bool" where
  "truthy_num x = (case x of None \<Rightarrow> False | Some n \<Rightarrow> n \<noteq> 0)"

definition num_orelse :: "int option \<Rightarrow> int option \<Rightarrow> int option" where
  "num_orelse a b = (if truthy_num a then a else b)"

text \<open>The template \<open>${x}\<close> of a property that may be \<open>undefined\<close>.\<close>

definition template_str :: "string option \<Rightarrow> string" where
  "template_str x = (case x of None \<Rightarrow> ''undefined'' | Some s \<Rightarrow> s)"

text \<open>
  \<open>formatCachedResult\<close>. \<open>info\<close> is \<open>PTT.parse(definitiveTitle) || { title: definitiveTitle }\<close>;
  the parser is taken to return an object, so the alternative is never used.
\<close>

definition formatCachedResult :: "utils \<Rightarrow> torrent \<Rightarrow> bool option \<Rightarrow> result" where
  "formatCachedResult u torrent isCached =
     (let episodeHint = t_episodeFileHint torrent;
          hintPath = (case episodeHint of None \<Rightarrow> None | Some h \<Rightarrow> filePath h);
          definitiveTitle =
            str_or (str_orelse hintPath (str_orelse (t_Title torrent) (t_name torrent))) ''Unknown Title'';
          definitiveSize =
            (case episodeHint of
               Some h \<Rightarrow>
                 (case fileBytes h of
                    Some n \<Rightarrow>
                      if n > 0 then n
                      else num_or (num_orelse (t_Size torrent) (num_orelse (t_size torrent) (t_filesize torrent))) 0
                  | None \<Rightarrow>
                      num_or (num_orelse (t_Size torrent) (num_orelse (t_size torrent) (t_filesize torrent))) 0)
             | None \<Rightarrow>
                 num_or (num_orelse (t_Size torrent) (num_orelse (t_size torrent) (t_filesize torrent))) 0);
          baseMagnet = ''magnet:?xt=urn:btih:'' @ template_str (t_InfoHash torrent);
          url =
            (if t_isPersonal torrent then ''magnet:?xt=urn:btih:'' @ template_str (t_hash torrent)
             else case episodeHint of
                    Some h \<Rightarrow>
                      if truthy_str (t_InfoHash torrent)
                      then (case encodeHint u (toLowerCase (str_or_empty (t_InfoHash torrent))) h of
                              Some encodedHint \<Rightarrow> baseMagnet @ ''||HINT||'' @ encodedHint
                            | None \<Rightarrow> baseMagnet)
                      else baseMagnet
                  | None \<Rightarrow> baseMagnet);
          searchableTitle = str_or (t_searchableName torrent) definitiveTitle
      in \<lparr>r_name = definitiveTitle,
          r_info = PTT_parse u definitiveTitle,
          r_size = definitiveSize,
          r_seeders = num_or (num_orelse (t_Seeders torrent) (t_seeders torrent)) 0,
          r_url = url,
          r_source = ''realdebrid'',
          r_hash = toLowerCase (str_or_empty (str_orelse (t_InfoHash torrent) (t_hash torrent))),
          r_tracker = str_or (t_Tracker torrent) (if t_isPersonal torrent then ''Personal'' else ''Cached''),
          r_isPersonal = t_isPersonal torrent,
          r_isCached = isCached,
          r_languages = (case t_Langs torrent of None \<Rightarrow> [] | Some ls \<Rightarrow> ls),
          r_searchableName = (if truthy_str hintPath then Some searchableTitle else None),
          r_episodeHint = episodeHint,
          r_id = str_or_null (t_id torrent),
          r_torrentId = str_or_null (t_torrentId torrent),
          r_fileId = (if truthy_num (t_fileId torrent) then t_fileId torrent else None)\<rparr>)"

subsection \<open>Array.prototype.sort and Map\<close>

text \<open>
  \<open>sort\<close> with a comparator is the stable sort of ECMAScript: an element goes before
  another when the comparator is negative, after it when positive, and keeps its place
  when it is zero or \<open>NaN\<close> (\<open>None\<close>). It is written as the insertion of each element,
  from the last to the first, into the sorted rest.
\<close>

definition cmp_value :: "int option \<Rightarrow> int" where
  "cmp_value v = (case v of None \<Rightarrow> 0 | Some n \<Rightarrow> n)"

fun js_insert :: "('a \<Rightarrow> 'a \<Rightarrow> int option) \<Rightarrow> 'a \<Rightarrow> 'a list \<Rightarrow> 'a list" where
  "js_insert c x [] = [x]"
| "js_insert c x (y # ys) = (if cmp_value (c x y) \<le> 0 then x # y # ys else y # js_insert c x ys)"

definition js_sort :: "('a \<Rightarrow> 'a \<Rightarrow> int option) \<Rightarrow> 'a list \<Rightarrow> 'a list" where
  "js_sort c xs = foldr (js_insert c) xs []"

text \<open>
  A \<open>Map\<close> keeps its keys in the order of their first insertion; setting a key that is
  present replaces its value in place. \<open>new Map(entries)\<close> sets the entries in order.
\<close>

fun js_map_set :: "'k \<Rightarrow> 'v \<Rightarrow> ('k \<times> 'v) list \<Rightarrow> ('k \<times> 'v) list" where
  "js_map_set k v [] = [(k, v)]"
| "js_map_set k v (p # m) = (if fst p = k then (k, v) # m else p # js_map_set k v m)"

definition js_new_Map :: "('k \<times> 'v) list \<Rightarrow> ('k \<times> 'v) list" where
  "js_new_Map entries = foldl (\<lambda>m (k, v). js_map_set k v m) [] entries"

definition js_map_values :: "('k \<times> 'v) list \<Rightarrow> 'v list" where
  "js_map_values m = map snd m"

subsection \<open>The final sort\<close>

text \<open>The comparator of \<open>allResults.sort\<close>: \<open>None\<close> is \<open>NaN\<close>, a rank less \<open>undefined\<close>.\<close>

definition rank_of :: "utils \<Rightarrow> result \<Rightarrow> int option" where
  "rank_of u a = resolutionOrder u (getResolutionFromName u (Some (r_name a)))"

definition compareResults :: "utils \<Rightarrow> result \<Rightarrow> result \<Rightarrow> int option" where
  "compareResults u a b =
     (let rankA = rank_of u a; rankB = rank_of u b
      in if rankA \<noteq> rankB
         then (case (rankB, rankA) of (Some y, Some x) \<Rightarrow> Some (y - x) | _ \<Rightarrow> None)
         else Some (num_or (Some (r_size b)) 0 - num_or (Some (r_size a)) 0))"

definition sortResults :: "utils \<Rightarrow> result list \<Rightarrow> result list" where
  "sortResults u allResults = js_sort (compareResults u) allResults"

subsection \<open>combineAndMarkResults\<close>

text \<open>\<open>t.InfoHash?.toLowerCase()\<close>: \<open>undefined\<close> when the hash is absent.\<close>

definition infohash_key :: "torrent \<Rightarrow> string option" where
  "infohash_key t = map_option toLowerCase (t_InfoHash t)"

definition markedPersonal :: "torrent list \<Rightarrow> torrent list" where
  "markedPersonal personalFiles =
     map (\<lambda>file. file\<lparr>t_isPersonal := True, t_tracker := Some ''Personal''\<rparr>) personalFiles"

definition externalTorrents_of :: "torrent list list \<Rightarrow> torrent list" where
  "externalTorrents_of externalSources = map (\<lambda>t. t\<lparr>t_isPersonal := False\<rparr>) (concat externalSources)"

definition uniqueExternalTorrents :: "torrent list \<Rightarrow> torrent list" where
  "uniqueExternalTorrents externalTorrents =
     js_map_values (js_new_Map (map (\<lambda>t. (infohash_key t, t)) externalTorrents))"

definition personalHashes :: "torrent list \<Rightarrow> string set" where
  "personalHashes personalFiles =
     set (filter (\<lambda>h. h \<noteq> []) (List.map_filter (\<lambda>f. map_option toLowerCase (t_hash f)) personalFiles))"

definition combineAndMarkResults :: "utils \<Rightarrow> torrent list \<Rightarrow> torrent list list \<Rightarrow> torrent list" where
  "combineAndMarkResults u personalFiles externalSources =
     (let newExternalTorrents =
            filter (\<lambda>t. truthy_str (t_InfoHash t)
                       \<and> toLowerCase (str_or_empty (t_InfoHash t)) \<notin> personalHashes personalFiles)
              (uniqueExternalTorrents (externalTorrents_of externalSources));
          validTitleResults = filter (\<lambda>t. isValidTorrentTitle u (t_Title t)) newExternalTorrents
      in markedPersonal personalFiles @ validTitleResults)"

section \<open>The quota gate\<close>

text \<open>
  \<open>parseInt(s, 10)\<close>: leading white space, an optional sign, then decimal digits;
  \<open>None\<close> is \<open>NaN\<close> (no digit, or the variable is not set).
\<close>

definition is_space :: "char \<Rightarrow> bool" where
  "is_space c = (c \<in> set [CHR '' '', CHR 0x09, CHR 0x0A, CHR 0x0B, CHR 0x0C, CHR 0x0D])"

definition digit_value :: "char \<Rightarrow> nat option" where
  "digit_value c = map_of (zip ''0123456789'' [0, 1, 2, 3, 4, 5, 6, 7, 8, 9]) c"

definition digits_value :: "string \<Rightarrow> nat" where
  "digits_value ds = foldl (\<lambda>a c. 10 * a + (case digit_value c of None \<Rightarrow> 0 | Some d \<Rightarrow> d)) 0 ds"

definition parseInt :: "string option \<Rightarrow> int option" where
  "parseInt x =
     (case x of
        None \<Rightarrow> None
      | Some s \<Rightarrow>
          (let t = dropWhile is_space s;
               negative = (case t of [] \<Rightarrow> False | c # _ \<Rightarrow> c = CHR ''-'');
               body = (case t of [] \<Rightarrow> [] | c # r \<Rightarrow> if c = CHR ''-'' \<or> c = CHR ''+'' then r else t);
               ds = takeWhile (\<lambda>c. digit_value c \<noteq> None) body
           in if ds = [] then None
              else Some (if negative then - int (digits_value ds) else int (digits_value ds))))"

record process_env =
  MAX_RESULTS_PER_QUALITY :: "string option"
  MAX_RESULTS_REMUX :: "string option"
  MAX_RESULTS_BLURAY :: "string option"
  MAX_RESULTS_WEBDL :: "string option"
  MAX_RESULTS_WEBRIP :: "string option"
  MAX_RESULTS_AUDIO :: "string option"
  MAX_RESULTS_OTHER :: "string option"

definition rdDefaultMax :: "process_env \<Rightarrow> int" where
  "rdDefaultMax env = num_or (parseInt (MAX_RESULTS_PER_QUALITY env)) 2"

definition rdQualityLimits :: "process_env \<Rightarrow> (string \<rightharpoonup> int)" where
  "rdQualityLimits env =
     [''Remux'' \<mapsto> num_or (parseInt (MAX_RESULTS_REMUX env)) (rdDefaultMax env),
      ''BluRay'' \<mapsto> num_or (parseInt (MAX_RESULTS_BLURAY env)) (rdDefaultMax env),
      ''WEB/WEB-DL'' \<mapsto> num_or (parseInt (MAX_RESULTS_WEBDL env)) (rdDefaultMax env),
      ''BRRip/WEBRip'' \<mapsto> num_or (parseInt (MAX_RESULTS_WEBRIP env)) 1,
      ''Audio-Focused'' \<mapsto> num_or (parseInt (MAX_RESULTS_AUDIO env)) 1,
      ''Other'' \<mapsto> num_or (parseInt (MAX_RESULTS_OTHER env)) 10]"

definition HQ_CATEGORIES :: "string list" where
  "HQ_CATEGORIES = [''Remux'', ''BluRay'', ''WEB/WEB-DL'']"

definition HQ_RES :: "string list" where
  "HQ_RES = [''2160p'', ''1080p'']"

text \<open>\<open>counts?.[cat]?.[res] || 0\<close>.\<close>

definition count_at :: "(string \<rightharpoonup> (string \<rightharpoonup> nat)) \<Rightarrow> string \<Rightarrow> string \<Rightarrow> nat" where
  "count_at counts cat res = (case counts cat of None \<Rightarrow> 0 | Some byRes \<Rightarrow> count_or_0 (byRes res))"

text \<open>
  The gate of lines 331 to 335. A limit that is not a number (\<open>None\<close>: the key is
  absent from the limits) or is not positive leaves its category out.
\<close>

definition personalHighResSatisfied ::
  "(string \<rightharpoonup> int) \<Rightarrow> (string \<rightharpoonup> (string \<rightharpoonup> nat)) \<Rightarrow> bool" where
  "personalHighResSatisfied limits personalByCategoryResolution =
     list_all (\<lambda>cat.
        case limits cat of
          None \<Rightarrow> True
        | Some limit \<Rightarrow>
            if limit \<le> 0 then True
            else list_all (\<lambda>res. limit \<le> int (count_at personalByCategoryResolution cat res)) HQ_RES)
       HQ_CATEGORIES"

text \<open>The loop that counts the personal files per category and per resolution.\<close>

definition count_personal_file ::
  "torrent \<Rightarrow> (string \<rightharpoonup> nat) \<times> (string \<rightharpoonup> (string \<rightharpoonup> nat))
     \<Rightarrow> (string \<rightharpoonup> nat) \<times> (string \<rightharpoonup> (string \<rightharpoonup> nat))" where
  "count_personal_file file acc =
     (case str_or_null (t_category file) of
        None \<Rightarrow> acc
      | Some cat \<Rightarrow>
          (let byCat = (fst acc)(cat \<mapsto> count_or_0 (fst acc cat) + 1)
           in case str_or_null (t_resolution file) of
                None \<Rightarrow> (byCat, snd acc)
              | Some res \<Rightarrow>
                  (let byRes = obj_or_empty (snd acc cat)
                   in (byCat, (snd acc)(cat \<mapsto> byRes(res \<mapsto> count_or_0 (byRes res) + 1))))))"

definition personal_counts ::
  "torrent list \<Rightarrow> (string \<rightharpoonup> nat) \<times> (string \<rightharpoonup> (string \<rightharpoonup> nat))" where
  "personal_counts files = fold count_personal_file files (Map.empty, Map.empty)"

section \<open>The provider and the verification of one candidate\<close>

text \<open>An error of a provider call: \<open>error.response?.status\<close> and \<open>error.message\<close>.\<close>

datatype rd_error = RdError "nat option" string

record rd_file =
  f_path :: string
  f_bytes :: int
  f_selected :: bool
  f_id :: int

text \<open>\<open>info.data\<close> of \<open>RD.torrents.info\<close>, and one entry of \<open>RD.torrents.get\<close>.\<close>

record rd_info =
  i_status :: "string option"
  i_files :: "rd_file list option"
  i_filename :: "string option"

record rd_torrent =
  rt_id :: string
  rt_hash :: "string option"

datatype scraper =
    Bitmagnet | Jackett | Torrentio | Zilean | Comet | Stremthru | Bt4g
  | TorrentGalaxy | TorrentDownload | Snowfl

datatype rd_call =
    AddMagnet string | SelectFiles string | TorrentInfo string | TorrentsGet | TorrentDelete string

text \<open>
  Every call that leaves the process is recorded, in order: the metadata lookup, the
  search of the personal files, a read of the store, a producer with its arguments and
  languages, a provider call, and a write handed to \<open>setImmediate\<close>.
\<close>

datatype scraper_args =
    ByKey string
  | ByImdbId string string
  | ByTitleEpisode string "string option" "string option"
  | ByImdbIdEpisode string string "string option" "string option"

datatype event =
    MetaLookup string string
  | PersonalSearch string
  | ReleaseCountsQuery string
  | CachedHashesQuery
  | Producer scraper scraper_args "string list"
  | RdCall rd_call
  | DeferredUpsert cache_record
  | DeferredUpserts "cache_record list"

text \<open>
  The provider answers a call from the calls made so far, so a status may change from
  one read to the next. \<open>Inl\<close> is a rejected call; \<open>rd_addMagnet\<close> gives
  \<open>response.data.id\<close> and \<open>rd_info\<close> gives \<open>response.data\<close>, \<open>None\<close> when absent.
\<close>

record provider =
  rd_addMagnet :: "event list \<Rightarrow> string \<Rightarrow> rd_error + string option"
  rd_selectFiles :: "event list \<Rightarrow> string \<Rightarrow> rd_error + unit"
  rd_info :: "event list \<Rightarrow> string \<Rightarrow> rd_error + rd_info option"
  rd_torrents_get :: "event list \<Rightarrow> rd_error + rd_torrent list"
  rd_delete :: "event list \<Rightarrow> string \<Rightarrow> rd_error + unit"

text \<open>The mutable state of one search; the sets and the map keep insertion order.\<close>

record search_state =
  events :: "event list"
  torrentIdsToDelete :: "string list"
  failedPackHashes :: "string list"
  successfulPackResults :: "(string \<times> torrent) list"

definition initial_state :: search_state where
  "initial_state = \<lparr>events = [], torrentIdsToDelete = [], failedPackHashes = [],
                     successfulPackResults = []\<rparr>"

definition set_add :: "'a \<Rightarrow> 'a list \<Rightarrow> 'a list" where
  "set_add x xs = (if x \<in> set xs then xs else xs @ [x])"

definition record_event :: "event \<Rightarrow> search_state \<Rightarrow> search_state" where
  "record_event e st = st\<lparr>events := events st @ [e]\<rparr>"

definition addHashToMongo ::
  "mongo_config \<Rightarrow> string \<Rightarrow> string option \<Rightarrow> int option \<Rightarrow> string option \<Rightarrow> search_state \<Rightarrow> search_state" where
  "addHashToMongo mcfg hash fileName sizeBytes data st =
     (if hash = [] \<or> \<not> isEnabled mcfg then st
      else record_event
             (DeferredUpsert \<lparr>rec_service = Some ''realdebrid'', rec_hash = Some (toLowerCase hash),
                              rec_fileName = fileName, rec_size = sizeBytes, rec_data = data,
                              rec_releaseKey = None, rec_category = None, rec_resolution = None\<rparr>) st)"

definition JUNK_EXTENSIONS :: "string list" where
  "JUNK_EXTENSIONS = [''.iso'', ''.exe'', ''.zip'', ''.rar'', ''.7z'', ''.scr'']"

definition isJunk :: "rd_file \<Rightarrow> bool" where
  "isJunk f = list_ex (\<lambda>ext. endsWith (toLowerCase (f_path f)) ext) JUNK_EXTENSIONS"

definition MIN_VIDEO_BYTES :: int where
  "MIN_VIDEO_BYTES = 50 * 1024 * 1024"

definition terminal_status :: "string \<Rightarrow> bool" where
  "terminal_status status = (status \<in> set [''downloaded'', ''finished''])"

text \<open>
  \<open>rdHandler.liveCheckHash\<close> of \<open>searchRealDebridTorrents\<close>. A rejected \<open>addMagnet\<close> or
  \<open>info\<close> is \<open>null\<close> (\<open>.catch(() => null)\<close>); a rejected \<open>selectFiles\<close> lands in the
  \<open>catch\<close> of the handler, which returns \<open>false\<close>.
\<close>

definition liveCheckHash ::
  "utils \<Rightarrow> mongo_config \<Rightarrow> provider \<Rightarrow> string \<Rightarrow> search_state \<Rightarrow> bool \<times> search_state" where
  "liveCheckHash u mcfg RD hash st0 =
     (let magnet = ''magnet:?xt=urn:btih:'' @ hash;
          addResponse = (case rd_addMagnet RD (events st0) magnet of Inl e \<Rightarrow> None | Inr r \<Rightarrow> r);
          st1 = record_event (RdCall (AddMagnet magnet)) st0
      in case str_or_null addResponse of
           None \<Rightarrow> (False, st1)
         | Some torrentId \<Rightarrow>
             (let st2 = st1\<lparr>torrentIdsToDelete := set_add torrentId (torrentIdsToDelete st1)\<rparr>;
                  selected = rd_selectFiles RD (events st2) torrentId;
                  st3 = record_event (RdCall (SelectFiles torrentId)) st2
              in case selected of
                   Inl e \<Rightarrow> (False, st3)
                 | Inr _ \<Rightarrow>
                     (let torrentInfo = (case rd_info RD (events st3) torrentId of Inl e \<Rightarrow> None | Inr i \<Rightarrow> i);
                          st4 = record_event (RdCall (TorrentInfo torrentId)) st3;
                          status = str_or (case torrentInfo of None \<Rightarrow> None | Some i \<Rightarrow> i_status i) ''unknown''
                      in if \<not> terminal_status status then (False, st4)
                         else (let files = (case torrentInfo of
                                              None \<Rightarrow> []
                                            | Some i \<Rightarrow> (case i_files i of None \<Rightarrow> [] | Some fs \<Rightarrow> fs));
                                   hasJunk = list_ex isJunk files;
                                   hasVideo = list_ex (\<lambda>f. isValidVideo u (f_path f) (f_bytes f) MIN_VIDEO_BYTES) files
                               in if \<not> hasVideo then (False, st4)
                                  else if hasJunk then (False, st4)
                                  else (let largestVideo =
                                              (case js_sort (\<lambda>a b. Some (num_or (Some (f_bytes b)) 0 - num_or (Some (f_bytes a)) 0))
                                                      (filter (\<lambda>f. isValidVideo u (f_path f) (f_bytes f) MIN_VIDEO_BYTES) files) of
                                                 [] \<Rightarrow> None
                                               | f # _ \<Rightarrow> Some f)
                                        in (True,
                                            addHashToMongo mcfg hash
                                              (case largestVideo of None \<Rightarrow> None | Some f \<Rightarrow> str_or_null (Some (f_path f)))
                                              (case largestVideo of None \<Rightarrow> None
                                               | Some f \<Rightarrow> if f_bytes f = 0 then None else Some (f_bytes f))
                                              (Some status) st4))))))"

text \<open>
  \<open>rdHandler.liveCheckHash\<close> of \<open>searchTorrents\<close> (lines 677 to 712): the video must be
  selected, the junk test is the regular expression \<open>/\.(iso|exe|zip|rar|7z)$/i\<close>, and
  nothing is written to the store. (\<open>searchTorrents\<close> itself reads \<open>externalTorrents\<close>,
  which its scope does not declare, before it passes the handler on; the handler of
  \<open>checkAndProcessCache\<close> has the same junk test.)
\<close>

definition JUNK_PATTERN_searchTorrents :: "string list" where
  "JUNK_PATTERN_searchTorrents = [''.iso'', ''.exe'', ''.zip'', ''.rar'', ''.7z'']"

definition isJunk_searchTorrents :: "rd_file \<Rightarrow> bool" where
  "isJunk_searchTorrents f =
     list_ex (\<lambda>ext. endsWith (toLowerCase (f_path f)) ext) JUNK_PATTERN_searchTorrents"

definition liveCheckHash_searchTorrents ::
  "utils \<Rightarrow> provider \<Rightarrow> string \<Rightarrow> search_state \<Rightarrow> bool \<times> search_state" where
  "liveCheckHash_searchTorrents u RD hash st0 =
     (let magnet = ''magnet:?xt=urn:btih:'' @ hash;
          addResponse = (case rd_addMagnet RD (events st0) magnet of Inl e \<Rightarrow> None | Inr r \<Rightarrow> r);
          st1 = record_event (RdCall (AddMagnet magnet)) st0
      in case str_or_null addResponse of
           None \<Rightarrow> (False, st1)
         | Some torrentId \<Rightarrow>
             (let st2 = st1\<lparr>torrentIdsToDelete := set_add torrentId (torrentIdsToDelete st1)\<rparr>;
                  selected = rd_selectFiles RD (events st2) torrentId;
                  st3 = record_event (RdCall (SelectFiles torrentId)) st2
              in case selected of
                   Inl e \<Rightarrow> (False, st3)
                 | Inr _ \<Rightarrow>
                     (let torrentInfo = (case rd_info RD (events st3) torrentId of Inl e \<Rightarrow> None | Inr i \<Rightarrow> i);
                          st4 = record_event (RdCall (TorrentInfo torrentId)) st3;
                          status = str_or (case torrentInfo of None \<Rightarrow> None | Some i \<Rightarrow> i_status i) ''unknown''
                      in if \<not> terminal_status status then (False, st4)
                         else (let files = (case torrentInfo of
                                              None \<Rightarrow> []
                                            | Some i \<Rightarrow> (case i_files i of None \<Rightarrow> [] | Some fs \<Rightarrow> fs));
                                   hasVideo = list_ex (\<lambda>f. f_selected f
                                                \<and> isValidVideo u (f_path f) (f_bytes f) MIN_VIDEO_BYTES) files;
                                   hasJunk = list_ex isJunk_searchTorrents files
                               in if \<not> hasVideo then (False, st4)
                                  else if hasJunk then (False, st4)
                                  else (True, st4)))))"

section \<open>Pack inspection\<close>

text \<open>
  The values of \<open>config.js\<close> this file reads; the module is not part of the sources at
  hand, so they are parameters. \<open>MAX_PACKS_TO_INSPECT\<close> is \<open>None\<close> when it is not set.
\<close>

record app_config =
  BITMAGNET_ENABLED :: bool
  JACKETT_ENABLED :: bool
  TORRENTIO_ENABLED :: bool
  ZILEAN_ENABLED :: bool
  COMET_ENABLED :: bool
  STREMTHRU_ENABLED :: bool
  BT4G_ENABLED :: bool
  TORRENT_GALAXY_ENABLED :: bool
  TORRENT_DOWNLOAD_ENABLED :: bool
  SNOWFL_ENABLED :: bool
  MAX_PACKS_TO_INSPECT :: "int option"
  PRIORITY_PENALTY_AAC_OPUS_ENABLED :: bool

definition empty_torrent :: torrent where
  "empty_torrent =
     \<lparr>t_Title = None, t_name = None, t_InfoHash = None, t_hash = None, t_Size = None,
      t_size = None, t_filesize = None, t_Seeders = None, t_seeders = None, t_Tracker = None,
      t_tracker = None, t_isPersonal = False, t_isCached = None, t_category = None,
      t_resolution = None, t_episodeFileHint = None, t_searchableName = None, t_Langs = None,
      t_id = None, t_torrentId = None, t_fileId = None, t_isFromPack = False, t_packHash = None\<rparr>"

text \<open>
  \<open>a === b\<close> between a parsed number, \<open>None\<close> when the parser found none, and the
  number asked for, \<open>None\<close> when it is \<open>NaN\<close>.
\<close>

definition strict_eq_num :: "int option \<Rightarrow> int option \<Rightarrow> bool" where
  "strict_eq_num a b = (case (a, b) of (Some x, Some y) \<Rightarrow> x = y | _ \<Rightarrow> False)"

definition pack_file_matches :: "utils \<Rightarrow> int option \<Rightarrow> int option \<Rightarrow> rd_file \<Rightarrow> bool" where
  "pack_file_matches u season episode file =
     (if isJunk file then False
      else (let parsed = PTT_parse u (f_path file)
            in strict_eq_num (ptt_season parsed) season
               \<and> (case ptt_episode parsed of EpNumber e \<Rightarrow> strict_eq_num (Some e) episode | _ \<Rightarrow> False)))"

definition episodeResult_of :: "string \<Rightarrow> string \<Rightarrow> rd_info \<Rightarrow> rd_file \<Rightarrow> torrent" where
  "episodeResult_of hash torrentId info bestFile =
     empty_torrent
       \<lparr>t_InfoHash := Some hash, t_Title := Some (f_path bestFile), t_name := Some (f_path bestFile),
        t_Size := Some (f_bytes bestFile), t_size := Some (f_bytes bestFile), t_Seeders := Some 0,
        t_Tracker := Some ''Pack Inspection'',
        t_episodeFileHint :=
          Some \<lparr>filePath = Some (f_path bestFile), fileBytes = Some (f_bytes bestFile),
                hint_torrentId = Some torrentId, hint_fileId = Some (f_id bestFile)\<rparr>,
        t_isCached := Some True, t_isFromPack := True, t_packHash := Some hash,
        t_searchableName := i_filename info\<rparr>"

text \<open>
  From \<open>RD.torrents.info\<close> to the end of the \<open>try\<close>: the episode result of the pack, if
  a file matches, or the error thrown.
\<close>

definition inspect_files ::
  "utils \<Rightarrow> provider \<Rightarrow> int option \<Rightarrow> int option \<Rightarrow> string \<Rightarrow> string \<Rightarrow> search_state
     \<Rightarrow> (rd_error + torrent option) \<times> search_state" where
  "inspect_files u RD season episode hash torrentId st =
     (let info = rd_info RD (events st) torrentId;
          st1 = record_event (RdCall (TorrentInfo torrentId)) st
      in case info of
           Inl e \<Rightarrow> (Inl e, st1)
         | Inr None \<Rightarrow> (Inr None, st1)
         | Inr (Some i) \<Rightarrow>
             (case i_files i of
                None \<Rightarrow> (Inr None, st1)
              | Some files \<Rightarrow>
                  (case js_sort (\<lambda>a b. Some (f_bytes b - f_bytes a))
                          (filter (pack_file_matches u season episode) files) of
                     [] \<Rightarrow> (Inr None, st1)
                   | bestFile # _ \<Rightarrow>
                       (let episodeResult = episodeResult_of hash torrentId i bestFile
                        in (Inr (Some episodeResult),
                            st1\<lparr>successfulPackResults :=
                                   js_map_set (toLowerCase hash) episodeResult (successfulPackResults st1)\<rparr>)))))"

text \<open>The body of the \<open>try\<close> for one pack hash.\<close>

definition inspect_pack_try ::
  "utils \<Rightarrow> provider \<Rightarrow> int option \<Rightarrow> int option \<Rightarrow> string \<Rightarrow> search_state
     \<Rightarrow> (rd_error + torrent option) \<times> search_state" where
  "inspect_pack_try u RD season episode hash st =
     (let torrentsResponse = rd_torrents_get RD (events st);
          st1 = record_event (RdCall TorrentsGet) st
      in case torrentsResponse of
           Inl e \<Rightarrow> (Inl e, st1)
         | Inr torrents \<Rightarrow>
             (case find (\<lambda>t. truthy_str (rt_hash t)
                              \<and> toLowerCase (str_or_empty (rt_hash t)) = toLowerCase hash) torrents of
                Some existingTorrent \<Rightarrow> inspect_files u RD season episode hash (rt_id existingTorrent) st1
              | None \<Rightarrow>
                  (let magnet = ''magnet:?xt=urn:btih:'' @ hash;
                       addResponse = rd_addMagnet RD (events st1) magnet;
                       st2 = record_event (RdCall (AddMagnet magnet)) st1
                   in case addResponse of
                        Inl e \<Rightarrow> (Inl e, st2)
                      | Inr r \<Rightarrow>
                          (case str_or_null r of
                             None \<Rightarrow> (Inr None, st2)
                           | Some torrentId \<Rightarrow>
                               (let st3 = st2\<lparr>torrentIdsToDelete := set_add torrentId (torrentIdsToDelete st2)\<rparr>;
                                    selected = rd_selectFiles RD (events st3) torrentId;
                                    st4 = record_event (RdCall (SelectFiles torrentId)) st3
                                in case selected of
                                     Inl e \<Rightarrow> (Inl e, st4)
                                   | Inr _ \<Rightarrow> inspect_files u RD season episode hash torrentId st4)))))"

text \<open>
  One turn of the loop: the \<open>try\<close> and its \<open>catch\<close>, which remembers the hash as failed
  (after a pause of two seconds on a 429, which the model does not time).
\<close>

definition inspect_pack ::
  "utils \<Rightarrow> provider \<Rightarrow> int option \<Rightarrow> int option \<Rightarrow> string \<Rightarrow> search_state
     \<Rightarrow> torrent option \<times> search_state" where
  "inspect_pack u RD season episode hash st =
     (case inspect_pack_try u RD season episode hash st of
        (Inl error, st') \<Rightarrow>
          (None, st'\<lparr>failedPackHashes := set_add (toLowerCase hash) (failedPackHashes st')\<rparr>)
      | (Inr r, st') \<Rightarrow> (r, st'))"

fun batchCheckSeasonPacks_loop ::
  "utils \<Rightarrow> provider \<Rightarrow> int \<Rightarrow> int option \<Rightarrow> int option \<Rightarrow> string list
     \<Rightarrow> (string \<times> torrent list) list \<Rightarrow> int \<Rightarrow> search_state
     \<Rightarrow> (string \<times> torrent list) list \<times> search_state" where
  "batchCheckSeasonPacks_loop u RD maxPacks season episode [] packResults inspectedCount st =
     (packResults, st)"
| "batchCheckSeasonPacks_loop u RD maxPacks season episode (hash # hashes) packResults inspectedCount st =
     (if inspectedCount \<ge> maxPacks then (packResults, st)
      else case inspect_pack u RD season episode hash st of
             (Some episodeResult, st') \<Rightarrow>
               batchCheckSeasonPacks_loop u RD maxPacks season episode hashes
                 (js_map_set hash [episodeResult] packResults) (inspectedCount + 1) st'
           | (None, st') \<Rightarrow>
               batchCheckSeasonPacks_loop u RD maxPacks season episode hashes
                 packResults inspectedCount st')"

definition batchCheckSeasonPacks ::
  "app_config \<Rightarrow> utils \<Rightarrow> provider \<Rightarrow> string list \<Rightarrow> int option \<Rightarrow> int option \<Rightarrow> search_state
     \<Rightarrow> (string \<times> torrent list) list \<times> search_state" where
  "batchCheckSeasonPacks cfg u RD hashes season episode st =
     batchCheckSeasonPacks_loop u RD (num_or (MAX_PACKS_TO_INSPECT cfg) 3) season episode hashes [] 0 st"

text \<open>The packs whose file listing was read: the \<open>RD.torrents.info\<close> calls of a run.\<close>

definition info_calls :: "event list \<Rightarrow> nat" where
  "info_calls es = length (filter (\<lambda>e. case e of RdCall (TorrentInfo _) \<Rightarrow> True | _ \<Rightarrow> False) es)"

section \<open>getQualityCategory\<close>

text \<open>
  The regular expressions of \<open>getQualityCategory\<close>, over a small syntax: a literal, a
  white-space character (\<open>\s\<close>), a word boundary (\<open>\b\<close>), an optional part, \<open>\s*\<close>,
  sequence and alternative. \<open>rx_step\<close> gives every way a pattern can match at a place:
  the character before the place reached, and the rest of the input.
\<close>

datatype regex =
    Lit string | Space | WordBoundary | Opt regex | StarSpace | Seq regex regex | Alt regex regex

definition is_word_char :: "char \<Rightarrow> bool" where
  "is_word_char c =
     (c \<in> set ''abcdefghijklmnopqrstuvwxyzABCDEFGHIJKLMNOPQRSTUVWXYZ0123456789_'')"

definition word_before :: "char option \<Rightarrow> bool" where
  "word_before p = (case p of None \<Rightarrow> False | Some c \<Rightarrow> is_word_char c)"

definition word_after :: "string \<Rightarrow> bool" where
  "word_after r = (case r of [] \<Rightarrow> False | c # _ \<Rightarrow> is_word_char c)"

definition advance :: "char option \<Rightarrow> string \<Rightarrow> nat \<Rightarrow> char option \<times> string" where
  "advance p r n = (if n = 0 then (p, r) else (Some (last (take n r)), drop n r))"

fun rx_step :: "regex \<Rightarrow> char option \<times> string \<Rightarrow> (char option \<times> string) list" where
  "rx_step (Lit s) (p, r) =
     (if take (length s) r = s then [advance p r (length s)] else [])"
| "rx_step Space (p, r) =
     (case r of [] \<Rightarrow> [] | c # r' \<Rightarrow> if is_space c then [(Some c, r')] else [])"
| "rx_step WordBoundary (p, r) = (if word_before p \<noteq> word_after r then [(p, r)] else [])"
| "rx_step (Opt e) st = rx_step e st @ [st]"
| "rx_step StarSpace (p, r) = map (advance p r) (rev [0..<Suc (length (takeWhile is_space r))])"
| "rx_step (Seq a b) st = concat (map (rx_step b) (rx_step a st))"
| "rx_step (Alt a b) st = rx_step a st @ rx_step b st"

text \<open>\<open>regex.test(s)\<close>: the pattern matches at some place of \<open>s\<close>.\<close>

definition regex_test :: "regex \<Rightarrow> string \<Rightarrow> bool" where
  "regex_test e s =
     list_ex (\<lambda>i. rx_step e (advance None s i) \<noteq> []) [0..<Suc (length s)]"

definition rx_audio :: regex where
  "rx_audio = Seq (Alt Space (Lit ''.'')) (Seq (Alt (Lit ''aac'') (Lit ''opus'')) WordBoundary)"

definition rx_remux :: regex where
  "rx_remux = Seq WordBoundary (Seq (Lit ''remux'') WordBoundary)"

definition rx_rip :: regex where
  "rx_rip =
     Seq WordBoundary
       (Seq (Alt (Seq (Lit ''web'') (Seq (Opt (Lit ''-'')) (Lit ''rip'')))
              (Alt (Lit ''brrip'')
                (Alt (Lit ''dlrip'') (Seq (Lit ''bluray'') (Seq StarSpace (Lit ''rip''))))))
          WordBoundary)"

definition rx_bluray :: regex where
  "rx_bluray =
     Seq WordBoundary
       (Seq (Alt (Seq (Lit ''blu'') (Seq (Opt (Lit ''-'')) (Lit ''ray''))) (Lit ''bdrip''))
          WordBoundary)"

definition rx_web :: regex where
  "rx_web =
     Seq WordBoundary
       (Alt (Seq (Lit ''web'') (Seq (Opt (Lit ''-'')) (Seq (Opt (Lit ''.'')) (Lit ''dl''))))
          (Seq (Lit ''web'') WordBoundary))"

definition getQualityCategory :: "app_config \<Rightarrow> string option \<Rightarrow> string" where
  "getQualityCategory cfg torrentName =
     (let name = toLowerCase (str_or_empty torrentName)
      in if PRIORITY_PENALTY_AAC_OPUS_ENABLED cfg \<and> regex_test rx_audio name then ''Audio-Focused''
         else if regex_test rx_remux name then ''Remux''
         else if regex_test rx_rip name then ''BRRip/WEBRip''
         else if regex_test rx_bluray name then ''BluRay''
         else if regex_test rx_web name then ''WEB/WEB-DL''
         else ''Other'')"

section \<open>searchRealDebridTorrents\<close>

text \<open>
  The search is modelled from its guard to its \<open>finally\<close>. Left out are the abort
  controller shared between searches, which only the producers' signal reads, and the
  removed file cache, whose functions do nothing.
\<close>

text \<open>The values the \<open>id\<close> argument can hold.\<close>

datatype js_value = JUndefined | JNull | JString string | JNumber int | JBool bool | JObject

datatype js_error = JsError string

record meta =
  m_name :: string
  m_year :: "string option"

text \<open>\<open>userConfig.Languages\<close>: \<open>None\<close> when it is not an array.\<close>

record user_config =
  Languages :: "string list option"

record quotas =
  q_byCategory :: "string \<rightharpoonup> nat"
  q_byCategoryResolution :: "string \<rightharpoonup> (string \<rightharpoonup> nat)"

text \<open>The handler object handed to \<open>processAndFilterTorrents\<close>.\<close>

record rd_handler =
  checkCachedHashes :: "string option list option \<Rightarrow> search_state \<Rightarrow> string set \<times> search_state"
  h_liveCheckHash :: "string \<Rightarrow> search_state \<Rightarrow> bool \<times> search_state"
  h_batchCheckSeasonPacks ::
    "string list \<Rightarrow> int option \<Rightarrow> int option \<Rightarrow> search_state
       \<Rightarrow> (string \<times> torrent list) list \<times> search_state"

text \<open>
  The collaborators of the search that are not part of the sources at hand, as
  parameters: the metadata service; the search of the personal files (its result
  depends on the provider's listings and on the fuzzy matcher \<open>Fuse\<close>; it catches its
  own errors); the producers; the title matchers; and \<open>processAndFilterTorrents\<close> of
  \<open>common/debrid-cache-processor.js\<close>, which runs the verification through the handler.
  \<open>Inl\<close> is a rejected call.
\<close>

record collaborators =
  Cinemeta_getMeta :: "string \<Rightarrow> string \<Rightarrow> js_error + meta option"
  searchPersonalFiles :: "string \<Rightarrow> string \<Rightarrow> torrent list"
  run_scraper :: "scraper \<Rightarrow> scraper_args \<Rightarrow> string list \<Rightarrow> js_error + torrent list"
  matchesCandidateTitle :: "string \<Rightarrow> string \<Rightarrow> torrent \<Rightarrow> bool"
  filterByYear :: "torrent \<Rightarrow> meta \<Rightarrow> bool"
  processAndFilterTorrents ::
    "torrent list \<Rightarrow> rd_handler \<Rightarrow> (int option \<times> int option) option \<Rightarrow> quotas \<Rightarrow> search_state
       \<Rightarrow> (js_error + torrent list) \<times> search_state"

record environment =
  config :: app_config
  mongo :: mongo_config
  store :: mongo_backend
  env :: process_env
  helpers :: utils
  RD :: provider
  world :: collaborators

subsection \<open>String helpers\<close>

fun split_on :: "char \<Rightarrow> string \<Rightarrow> string list" where
  "split_on sep [] = [[]]"
| "split_on sep (c # cs) =
     (if c = sep then [] # split_on sep cs
      else (case split_on sep cs of [] \<Rightarrow> [[c]] | w # ws \<Rightarrow> (c # w) # ws))"

definition nth_opt :: "'a list \<Rightarrow> nat \<Rightarrow> 'a option" where
  "nth_opt xs i = (if i < length xs then Some (xs ! i) else None)"

definition padStart2 :: "string \<Rightarrow> string" where
  "padStart2 s = replicate (2 - length s) CHR ''0'' @ s"

definition trim :: "string \<Rightarrow> string" where
  "trim s = rev (dropWhile is_space (rev (dropWhile is_space s)))"

definition digit_char :: "nat \<Rightarrow> char" where
  "digit_char n = ''0123456789'' ! n"

fun string_of_nat :: "nat \<Rightarrow> string" where
  "string_of_nat n =
     (if n < 10 then [digit_char n] else string_of_nat (n div 10) @ [digit_char (n mod 10)])"

text \<open>\<open>String(n)\<close> of a number, \<open>None\<close> being \<open>NaN\<close>.\<close>

definition String_of_number :: "int option \<Rightarrow> string" where
  "String_of_number x =
     (case x of
        None \<Rightarrow> ''NaN''
      | Some n \<Rightarrow> if n < 0 then CHR ''-'' # string_of_nat (nat (- n)) else string_of_nat (nat n))"

text \<open>\<open>episodeInfo\<close> is \<open>None\<close> when there is none; its numbers come from \<open>parseInt\<close>.\<close>

definition makeReleaseKey :: "string \<Rightarrow> string \<Rightarrow> (int option \<times> int option) option \<Rightarrow> string" where
  "makeReleaseKey type imdbId episodeInfo =
     (case episodeInfo of
        Some (season, episode) \<Rightarrow>
          if type = ''series''
          then type @ '':'' @ imdbId @ '':S'' @ padStart2 (String_of_number season)
                 @ ''E'' @ padStart2 (String_of_number episode)
          else type @ '':'' @ imdbId
      | None \<Rightarrow> type @ '':'' @ imdbId)"

subsection \<open>Deferred writes to the store\<close>

definition deferMongoUpserts :: "mongo_config \<Rightarrow> cache_record list \<Rightarrow> search_state \<Rightarrow> search_state" where
  "deferMongoUpserts mcfg payloads st =
     (if \<not> isEnabled mcfg \<or> length payloads = 0 then st
      else record_event (DeferredUpserts payloads) st)"

fun uniqueUpserts_loop :: "cache_record list \<Rightarrow> string list \<Rightarrow> cache_record list" where
  "uniqueUpserts_loop [] seen = []"
| "uniqueUpserts_loop (p # ps) seen =
     (let key = str_or_empty (rec_service p) @ '':'' @ toLowerCase (str_or_empty (rec_hash p))
      in if \<not> truthy_str (rec_hash p) \<or> key \<in> set seen then uniqueUpserts_loop ps seen
         else p # uniqueUpserts_loop ps (key # seen))"

definition uniqueUpserts :: "cache_record list \<Rightarrow> cache_record list" where
  "uniqueUpserts payloads = uniqueUpserts_loop payloads []"

definition personal_upserts :: "string \<Rightarrow> torrent list \<Rightarrow> cache_record list" where
  "personal_upserts releaseKey enrichedPersonalFiles =
     map (\<lambda>file.
            \<lparr>rec_service = Some ''realdebrid'',
             rec_hash = Some (toLowerCase (str_or_empty (t_hash file))),
             rec_fileName = str_or_null (t_name file),
             rec_size = (if truthy_num (t_size file) then t_size file else None),
             rec_data = Some ''personal'',
             rec_releaseKey = Some releaseKey,
             rec_category = str_or_null (t_category file),
             rec_resolution = str_or_null (t_resolution file)\<rparr>)
       (filter (\<lambda>file. truthy_str (t_hash file)) enrichedPersonalFiles)"

subsection \<open>The personal phase\<close>

definition episodeInfo_of ::
  "string \<Rightarrow> string option \<Rightarrow> string option \<Rightarrow> (int option \<times> int option) option" where
  "episodeInfo_of type season episode =
     (if type = ''series'' \<and> truthy_str season \<and> truthy_str episode
      then Some (parseInt season, parseInt episode) else None)"

definition baseSearchKey_of :: "string \<Rightarrow> meta \<Rightarrow> string option \<Rightarrow> string option \<Rightarrow> string" where
  "baseSearchKey_of type cinemetaDetails season episode =
     (if type = ''series''
      then m_name cinemetaDetails @ '' s'' @ padStart2 (template_str season)
             @ ''e'' @ padStart2 (template_str episode)
      else trim (m_name cinemetaDetails @ '' '' @ str_or (m_year cinemetaDetails) []))"

text \<open>\<open>parsed.season === episodeInfo.season && parsed.episode === episodeInfo.episode\<close>.\<close>

definition personal_episode_matches :: "utils \<Rightarrow> int option \<times> int option \<Rightarrow> torrent \<Rightarrow> bool" where
  "personal_episode_matches u episodeInfo file =
     (let parsed = PTT_parse u (str_or (t_name file) [])
      in strict_eq_num (ptt_season parsed) (fst episodeInfo)
         \<and> (case ptt_episode parsed of
              EpNumber e \<Rightarrow> strict_eq_num (Some e) (snd episodeInfo)
            | _ \<Rightarrow> False))"

definition filter_personal ::
  "utils \<Rightarrow> string \<Rightarrow> (int option \<times> int option) option \<Rightarrow> torrent list \<Rightarrow> torrent list" where
  "filter_personal u type episodeInfo personalFiles =
     (case episodeInfo of
        Some info \<Rightarrow>
          if type = ''series'' then filter (personal_episode_matches u info) personalFiles
          else personalFiles
      | None \<Rightarrow> personalFiles)"

definition enrich :: "app_config \<Rightarrow> utils \<Rightarrow> torrent \<Rightarrow> torrent" where
  "enrich cfg u file =
     (if \<not> truthy_str (t_category file)
      then file\<lparr>t_category := Some (getQualityCategory cfg (str_orelse (t_name file) (t_Title file))),
                t_resolution := Some (getResolutionFromName u (str_orelse (t_name file) (t_Title file)))\<rparr>
      else file)"

definition enrichedPersonalFiles :: "app_config \<Rightarrow> utils \<Rightarrow> torrent list \<Rightarrow> torrent list" where
  "enrichedPersonalFiles cfg u personalFiles = map (enrich cfg u) personalFiles"

text \<open>The release counts of the store, \<open>empty\<close> when it is disabled or the call rejects.\<close>

definition mongoCounts_of :: "environment \<Rightarrow> string \<Rightarrow> search_state \<Rightarrow> release_counts \<times> search_state" where
  "mongoCounts_of E releaseKey st =
     (if isEnabled (mongo E)
      then ((case getReleaseCounts (mongo E) (store E) (Some ''realdebrid'') (Some releaseKey) of
               Inl e \<Rightarrow> empty_counts
             | Inr c \<Rightarrow> c),
            record_event (ReleaseCountsQuery releaseKey) st)
      else (empty_counts, st))"

definition combinedQuotas_of ::
  "release_counts \<Rightarrow> (string \<rightharpoonup> nat) \<times> (string \<rightharpoonup> (string \<rightharpoonup> nat)) \<Rightarrow> quotas" where
  "combinedQuotas_of mongoCounts personal =
     \<lparr>q_byCategory =
        (\<lambda>cat. case fst personal cat of
                 None \<Rightarrow> byCategory mongoCounts cat
               | Some n \<Rightarrow> Some (count_or_0 (byCategory mongoCounts cat) + n)),
      q_byCategoryResolution =
        (\<lambda>cat. case snd personal cat of
                 None \<Rightarrow> byCategoryResolution mongoCounts cat
               | Some byRes \<Rightarrow>
                   Some (\<lambda>res. case byRes res of
                                 None \<Rightarrow> obj_or_empty (byCategoryResolution mongoCounts cat) res
                               | Some c \<Rightarrow>
                                   Some (count_or_0 (obj_or_empty (byCategoryResolution mongoCounts cat) res) + c)))\<rparr>"

text \<open>The early exit: the personal files, formatted as cached and sorted.\<close>

definition early_exit ::
  "environment \<Rightarrow> string \<Rightarrow> torrent list \<Rightarrow> search_state \<Rightarrow> result list \<times> search_state" where
  "early_exit E releaseKey personalFiles st =
     (sortResults (helpers E) (map (\<lambda>torrent. formatCachedResult (helpers E) torrent (Some True)) personalFiles),
      (if isEnabled (mongo E)
       then deferMongoUpserts (mongo E)
              (uniqueUpserts (personal_upserts releaseKey
                 (enrichedPersonalFiles (config E) (helpers E) personalFiles))) st
       else st))"

subsection \<open>The producers\<close>

definition all_scrapers :: "scraper list" where
  "all_scrapers = [Bitmagnet, Jackett, Torrentio, Zilean, Comet, Stremthru, Bt4g,
                   TorrentGalaxy, TorrentDownload, Snowfl]"

fun scraper_enabled :: "app_config \<Rightarrow> scraper \<Rightarrow> bool" where
  "scraper_enabled cfg Bitmagnet = BITMAGNET_ENABLED cfg"
| "scraper_enabled cfg Jackett = JACKETT_ENABLED cfg"
| "scraper_enabled cfg Torrentio = TORRENTIO_ENABLED cfg"
| "scraper_enabled cfg Zilean = ZILEAN_ENABLED cfg"
| "scraper_enabled cfg Comet = COMET_ENABLED cfg"
| "scraper_enabled cfg Stremthru = STREMTHRU_ENABLED cfg"
| "scraper_enabled cfg Bt4g = BT4G_ENABLED cfg"
| "scraper_enabled cfg TorrentGalaxy = TORRENT_GALAXY_ENABLED cfg"
| "scraper_enabled cfg TorrentDownload = TORRENT_DOWNLOAD_ENABLED cfg"
| "scraper_enabled cfg Snowfl = SNOWFL_ENABLED cfg"

record query =
  q_key :: string
  q_type :: string
  q_imdbId :: string
  q_searchKey :: string
  q_season :: "string option"
  q_episode :: "string option"

fun scraper_args_of :: "query \<Rightarrow> scraper \<Rightarrow> scraper_args" where
  "scraper_args_of q Torrentio = ByImdbId (q_type q) (q_imdbId q)"
| "scraper_args_of q Zilean = ByTitleEpisode (q_searchKey q) (q_season q) (q_episode q)"
| "scraper_args_of q Comet = ByImdbIdEpisode (q_type q) (q_imdbId q) (q_season q) (q_episode q)"
| "scraper_args_of q _ = ByKey (q_key q)"

text \<open>
  The calls pushed to \<open>scraperPromises\<close>: every enabled producer once with no language,
  or once per selected language.
\<close>

definition scraper_jobs :: "app_config \<Rightarrow> query \<Rightarrow> string list \<Rightarrow> (scraper \<times> scraper_args \<times> string list) list" where
  "scraper_jobs cfg q selectedLanguages =
     concat (map (\<lambda>langs. map (\<lambda>sc. (sc, scraper_args_of q sc, langs))
                           (filter (scraper_enabled cfg) all_scrapers))
               (if length selectedLanguages = 0 then [[]] else map (\<lambda>lang. [lang]) selectedLanguages))"

fun run_jobs ::
  "collaborators \<Rightarrow> (scraper \<times> scraper_args \<times> string list) list \<Rightarrow> search_state
     \<Rightarrow> (js_error + torrent list) list \<times> search_state" where
  "run_jobs w [] st = ([], st)"
| "run_jobs w ((sc, args, langs) # jobs) st =
     (case run_jobs w jobs (record_event (Producer sc args langs) st) of
        (rs, st') \<Rightarrow> (run_scraper w sc args langs # rs, st'))"

text \<open>\<open>Promise.all\<close>: the results in order, or a rejection if one of them rejects.\<close>

fun promise_all :: "('e + 'a) list \<Rightarrow> 'e + 'a list" where
  "promise_all [] = Inr []"
| "promise_all (Inl e # rs) = Inl e"
| "promise_all (Inr x # rs) = (case promise_all rs of Inl e \<Rightarrow> Inl e | Inr xs \<Rightarrow> Inr (x # xs))"

subsection \<open>The filters on the producers' candidates\<close>

text \<open>\<open>Number(p.episode)\<close>: of a number, of an array (through its string), \<open>NaN\<close> otherwise.\<close>

definition Number_of_episode :: "ptt_episode \<Rightarrow> int option" where
  "Number_of_episode ep =
     (case ep of
        EpUndefined \<Rightarrow> None
      | EpNumber n \<Rightarrow> Some n
      | EpArray xs \<Rightarrow> (case xs of [] \<Rightarrow> Some 0 | [x] \<Rightarrow> Some x | _ \<Rightarrow> None))"

definition title_of :: "torrent \<Rightarrow> string" where
  "title_of t = str_or (str_orelse (t_Title t) (t_name t)) []"

definition strict_episode_gate :: "utils \<Rightarrow> int option \<times> int option \<Rightarrow> torrent \<Rightarrow> bool" where
  "strict_episode_gate u episodeInfo t =
     (let p = PTT_parse u (title_of t)
      in if ptt_season p \<noteq> None \<and> ptt_episode p \<noteq> EpUndefined
         then strict_eq_num (ptt_season p) (fst episodeInfo)
              \<and> strict_eq_num (Number_of_episode (ptt_episode p)) (snd episodeInfo)
         else if ptt_season p \<noteq> None
         then strict_eq_num (ptt_season p) (fst episodeInfo)
         else True)"

definition movie_gate :: "utils \<Rightarrow> torrent \<Rightarrow> bool" where
  "movie_gate u t =
     (if isSeriesLikeTitle u (title_of t) then False
      else (let parsed = PTT_parse u (title_of t)
            in if ptt_season parsed \<noteq> None \<or> ptt_seasons parsed then False else True))"

definition filter_external ::
  "environment \<Rightarrow> string \<Rightarrow> string \<Rightarrow> meta \<Rightarrow> (int option \<times> int option) option \<Rightarrow> torrent list
     \<Rightarrow> torrent list" where
  "filter_external E type specificSearchKey cinemetaDetails episodeInfo externalTorrents =
     (let afterEpisode =
            (case episodeInfo of
               None \<Rightarrow> externalTorrents
             | Some info \<Rightarrow>
                 filter (strict_episode_gate (helpers E) info)
                   (filter (\<lambda>t. if type = ''series''
                                then matchesCandidateTitle (world E) specificSearchKey (m_name cinemetaDetails) t
                                else True)
                      externalTorrents))
      in if type = ''movie''
         then (let noSeries = filter (movie_gate (helpers E)) afterEpisode
               in if truthy_str (m_year cinemetaDetails)
                  then filter (\<lambda>torrent. filterByYear (world E) torrent cinemetaDetails) noSeries
                  else noSeries)
         else afterEpisode)"

subsection \<open>The handler and the last verification pass\<close>

definition rdHandler :: "environment \<Rightarrow> rd_handler" where
  "rdHandler E =
     \<lparr>checkCachedHashes =
        (\<lambda>hashes st.
           if isEnabled (mongo E)
           then ((case getCachedHashes (mongo E) (store E) (Some ''realdebrid'') hashes of
                    Inl e \<Rightarrow> {}
                  | Inr cached \<Rightarrow> cached),
                 record_event CachedHashesQuery st)
           else ({}, st)),
      h_liveCheckHash = liveCheckHash (helpers E) (mongo E) (RD E),
      h_batchCheckSeasonPacks = batchCheckSeasonPacks (config E) (helpers E) (RD E)\<rparr>"

fun inspectAndFilterNonCached ::
  "rd_handler \<Rightarrow> torrent list \<Rightarrow> search_state \<Rightarrow> torrent list \<times> search_state" where
  "inspectAndFilterNonCached h [] st = ([], st)"
| "inspectAndFilterNonCached h (torrent # torrents) st =
     (case h_liveCheckHash h (template_str (t_InfoHash torrent)) st of
        (isValid, st1) \<Rightarrow>
          (case inspectAndFilterNonCached h torrents st1 of
             (validTorrents, st2) \<Rightarrow>
               (if isValid then torrent # validTorrents else validTorrents, st2)))"

definition checked_upserts :: "environment \<Rightarrow> string \<Rightarrow> torrent list \<Rightarrow> cache_record list" where
  "checked_upserts E releaseKey cachedResults =
     map (\<lambda>t.
            \<lparr>rec_service = Some ''realdebrid'',
             rec_hash = Some (toLowerCase (str_or (str_orelse (t_InfoHash t) (t_hash t)) [])),
             rec_fileName = str_or_null (str_orelse (t_name t) (t_Title t)),
             rec_size = (if truthy_num (num_orelse (t_size t) (t_Size t))
                         then num_orelse (t_size t) (t_Size t) else None),
             rec_data = Some (if t_isPersonal t then ''personal''
                              else if t_isCached t = Some True then ''cached'' else ''checked''),
             rec_releaseKey = Some releaseKey,
             rec_category =
               Some (if truthy_str (t_category t) then str_or_empty (t_category t)
                     else getQualityCategory (config E) (Some (str_or (str_orelse (t_name t) (t_Title t)) []))),
             rec_resolution =
               Some (getResolutionFromName (helpers E) (Some (str_or (str_orelse (t_name t) (t_Title t)) [])))\<rparr>)
       (filter (\<lambda>t. toLowerCase (str_or (str_orelse (t_InfoHash t) (t_hash t)) []) \<noteq> []) cachedResults)"

text \<open>From the producers to the sorted list: what follows the gate when it is not met.\<close>

definition search_phase2 ::
  "environment \<Rightarrow> query \<Rightarrow> meta \<Rightarrow> (int option \<times> int option) option \<Rightarrow> string list
     \<Rightarrow> torrent list \<Rightarrow> string \<Rightarrow> quotas \<Rightarrow> search_state
     \<Rightarrow> (js_error + result list) \<times> search_state" where
  "search_phase2 E q cinemetaDetails episodeInfo selectedLanguages personalFiles releaseKey
       combinedQuotas st =
     (case run_jobs (world E) (scraper_jobs (config E) q selectedLanguages) st of
        (scraperPromises, st1) \<Rightarrow>
          (case promise_all scraperPromises of
             Inl e \<Rightarrow> (Inl e, st1)
           | Inr scraperResults \<Rightarrow>
               (let combinedResults = combineAndMarkResults (helpers E) personalFiles scraperResults;
                    externalTorrents =
                      filter_external E (q_type q) (q_key q) cinemetaDetails episodeInfo
                        (filter (\<lambda>t. \<not> t_isPersonal t) combinedResults);
                    st2 = (if isEnabled (mongo E)
                           then deferMongoUpserts (mongo E)
                                  (personal_upserts releaseKey
                                     (enrichedPersonalFiles (config E) (helpers E) personalFiles)) st1
                           else st1)
                in case processAndFilterTorrents (world E) externalTorrents (rdHandler E) episodeInfo
                          combinedQuotas st2 of
                     (Inl e, st3) \<Rightarrow> (Inl e, st3)
                   | (Inr cachedResults, st3) \<Rightarrow>
                       (let nonCachedTorrents =
                              filter (\<lambda>t. \<not> list_ex (\<lambda>c. t_InfoHash c = t_InfoHash t) cachedResults)
                                externalTorrents
                        in if length nonCachedTorrents > 0
                           then (let topNonCached =
                                       take 5 (js_sort (\<lambda>a b. Some (num_or (t_Seeders b) 0 - num_or (t_Seeders a) 0))
                                                 nonCachedTorrents)
                                 in case inspectAndFilterNonCached (rdHandler E) topNonCached st3 of
                                      (verifiedNonCached, st4) \<Rightarrow>
                                        (let allCached =
                                               cachedResults
                                               @ map (\<lambda>t. t\<lparr>t_isCached := Some False\<rparr>) verifiedNonCached;
                                             st5 = (if isEnabled (mongo E)
                                                    then deferMongoUpserts (mongo E)
                                                           (uniqueUpserts (checked_upserts E releaseKey allCached)) st4
                                                    else st4)
                                         in (Inr (sortResults (helpers E)
                                                    (map (\<lambda>torrent. formatCachedResult (helpers E) torrent (t_isCached torrent))
                                                       (personalFiles @ allCached))),
                                             st5)))
                           else (Inr (sortResults (helpers E)
                                        (map (\<lambda>torrent. formatCachedResult (helpers E) torrent (t_isCached torrent))
                                           (personalFiles @ cachedResults))),
                                 st3)))))"

subsection \<open>The search\<close>

text \<open>The parts of the \<open>id\<close>: \<open>id.split(':')\<close>, its head and the two that follow.\<close>

definition imdbId_of :: "string \<Rightarrow> string" where
  "imdbId_of ident = (case split_on CHR '':'' ident of [] \<Rightarrow> [] | x # _ \<Rightarrow> x)"

definition season_of :: "string \<Rightarrow> string option" where
  "season_of ident = nth_opt (split_on CHR '':'' ident) 1"

definition episode_of :: "string \<Rightarrow> string option" where
  "episode_of ident = nth_opt (split_on CHR '':'' ident) 2"

text \<open>The personal files of a search: those found, kept for the episode asked for.\<close>

definition personalFiles_of ::
  "environment \<Rightarrow> string \<Rightarrow> string \<Rightarrow> string option \<Rightarrow> string option \<Rightarrow> meta \<Rightarrow> torrent list" where
  "personalFiles_of E apiKey type season episode cinemetaDetails =
     filter_personal (helpers E) type (episodeInfo_of type season episode)
       (searchPersonalFiles (world E) apiKey (m_name cinemetaDetails))"

text \<open>The body of the \<open>try\<close>.\<close>

definition search_try ::
  "environment \<Rightarrow> string \<Rightarrow> string \<Rightarrow> string \<Rightarrow> string option \<Rightarrow> string option \<Rightarrow> meta
     \<Rightarrow> user_config \<Rightarrow> search_state \<Rightarrow> (js_error + result list) \<times> search_state" where
  "search_try E apiKey type imdbId season episode cinemetaDetails userConfig st =
     (let searchKey = m_name cinemetaDetails;
          selectedLanguages = (case Languages userConfig of None \<Rightarrow> [] | Some ls \<Rightarrow> ls);
          baseSearchKey = baseSearchKey_of type cinemetaDetails season episode;
          episodeInfo = episodeInfo_of type season episode;
          personalFiles = personalFiles_of E apiKey type season episode cinemetaDetails;
          st1 = record_event (PersonalSearch searchKey) st;
          personal = personal_counts (enrichedPersonalFiles (config E) (helpers E) personalFiles);
          releaseKey = makeReleaseKey type imdbId episodeInfo
      in case mongoCounts_of E releaseKey st1 of
           (mongoCounts, st2) \<Rightarrow>
             if personalHighResSatisfied (rdQualityLimits (env E)) (snd personal)
             then (case early_exit E releaseKey personalFiles st2 of
                     (allResults, st3) \<Rightarrow> (Inr allResults, st3))
             else search_phase2 E
                    \<lparr>q_key = baseSearchKey, q_type = type, q_imdbId = imdbId, q_searchKey = searchKey,
                     q_season = season, q_episode = episode\<rparr>
                    cinemetaDetails episodeInfo selectedLanguages personalFiles releaseKey
                    (combinedQuotas_of mongoCounts personal) st2)"

text \<open>
  \<open>cleanupTemporaryTorrents\<close>, started by the \<open>finally\<close> and not awaited: each torrent
  is deleted, once more after a 429.
\<close>

fun cleanupTemporaryTorrents :: "provider \<Rightarrow> string list \<Rightarrow> search_state \<Rightarrow> search_state" where
  "cleanupTemporaryTorrents P [] st = st"
| "cleanupTemporaryTorrents P (torrentId # torrentIds) st =
     (let st1 = record_event (RdCall (TorrentDelete torrentId)) st
      in case rd_delete P (events st) torrentId of
           Inl (RdError status message) \<Rightarrow>
             if status = Some 429
             then cleanupTemporaryTorrents P torrentIds (record_event (RdCall (TorrentDelete torrentId)) st1)
             else cleanupTemporaryTorrents P torrentIds st1
         | Inr _ \<Rightarrow> cleanupTemporaryTorrents P torrentIds st1)"

text \<open>
  The whole function. The guard on \<open>id\<close> and the metadata lookup stand before the
  \<open>try\<close>: a rejected lookup rejects the search (\<open>Inl\<close>). An error inside the \<open>try\<close> gives
  the empty list, and the \<open>finally\<close> starts the clean-up.
\<close>

definition search_with_id ::
  "environment \<Rightarrow> string \<Rightarrow> string \<Rightarrow> string \<Rightarrow> user_config \<Rightarrow> (js_error + result list) \<times> search_state" where
  "search_with_id E apiKey type ident userConfig =
     (let imdbId = imdbId_of ident;
          season = season_of ident;
          episode = episode_of ident;
          st = record_event (MetaLookup type imdbId) initial_state
      in case Cinemeta_getMeta (world E) type imdbId of
           Inl e \<Rightarrow> (Inl e, st)
         | Inr None \<Rightarrow> (Inr [], st)
         | Inr (Some cinemetaDetails) \<Rightarrow>
             (case search_try E apiKey type imdbId season episode cinemetaDetails userConfig st of
                (outcome, st') \<Rightarrow>
                  ((case outcome of Inl error \<Rightarrow> Inr [] | Inr allResults \<Rightarrow> Inr allResults),
                   cleanupTemporaryTorrents (RD E) (torrentIdsToDelete st') st')))"

definition searchRealDebridTorrents ::
  "environment \<Rightarrow> string \<Rightarrow> string \<Rightarrow> js_value \<Rightarrow> user_config \<Rightarrow> (js_error + result list) \<times> search_state" where
  "searchRealDebridTorrents E apiKey type ident userConfig =
     (case ident of
        JString s \<Rightarrow> if s = [] then (Inr [], initial_state) else search_with_id E apiKey type s userConfig
      | _ \<Rightarrow> (Inr [], initial_state))"

text \<open>The producers invoked and the provider calls made, read off the record of a run.\<close>

definition producer_calls :: "event list \<Rightarrow> event list" where
  "producer_calls es = filter (\<lambda>e. case e of Producer _ _ _ \<Rightarrow> True | _ \<Rightarrow> False) es"

definition provider_calls :: "event list \<Rightarrow> event list" where
  "provider_calls es = filter (\<lambda>e. case e of RdCall _ \<Rightarrow> True | _ \<Rightarrow> False) es"

section \<open>The order the specification states, and sample inputs\<close>

text \<open>
  The specification's order of the final list: descending by resolution rank, ties
  broken by descending size.
\<close>

definition spec_order :: "utils \<Rightarrow> result \<Rightarrow> result \<Rightarrow> bool" where
  "spec_order u a b =
     (case (rank_of u a, rank_of u b) of
        (Some x, Some y) \<Rightarrow> y < x \<or> (x = y \<and> r_size b \<le> r_size a)
      | _ \<Rightarrow> False)"

text \<open>
  Modelled from the spec: \<open>isValidVideo\<close> of \<open>common/torrent-utils.js\<close>, which is not
  part of the sources at hand. The specification calls a file a plausible video when
  its extension is in a known set of video extensions and its size is above the
  minimum.
\<close>

definition plausible_video :: "string list \<Rightarrow> string \<Rightarrow> int \<Rightarrow> int \<Rightarrow> bool" where
  "plausible_video videoExtensions path bytes minSize =
     (list_ex (\<lambda>ext. endsWith (toLowerCase path) ext) videoExtensions \<and> minSize < bytes)"

text \<open>
  Sample helpers for the concrete runs below: a rank table with \<open>2160p\<close> above \<open>1080p\<close>
  above \<open>720p\<close> above the rest, a resolution read off the name, and a title parser that
  finds no season.
\<close>

definition str_includes :: "string \<Rightarrow> string \<Rightarrow> bool" where
  "str_includes s sub = list_ex (\<lambda>i. take (length sub) (drop i s) = sub) [0..<Suc (length s)]"

definition sample_resolution :: "string option \<Rightarrow> string" where
  "sample_resolution name =
     (let n = toLowerCase (str_or_empty name)
      in if str_includes n ''2160p'' then ''2160p''
         else if str_includes n ''1080p'' then ''1080p''
         else if str_includes n ''720p'' then ''720p''
         else ''other'')"

definition sample_utils :: utils where
  "sample_utils =
     \<lparr>PTT_parse = (\<lambda>title. \<lparr>ptt_title = Some title, ptt_season = None, ptt_episode = EpUndefined,
                             ptt_seasons = False\<rparr>),
      isValidVideo = plausible_video [''.mkv'', ''.mp4'', ''.avi''],
      isValidTorrentTitle = (\<lambda>title. True),
      getResolutionFromName = sample_resolution,
      resolutionOrder = [''2160p'' \<mapsto> 4, ''1080p'' \<mapsto> 3, ''720p'' \<mapsto> 2, ''other'' \<mapsto> 0],
      isSeriesLikeTitle = (\<lambda>title. False),
      encodeHint = (\<lambda>hash hint. None)\<rparr>"

text \<open>A provider that accepts every magnet under one identifier and answers \<open>info\<close>.\<close>

definition sample_provider :: "rd_info \<Rightarrow> provider" where
  "sample_provider info =
     \<lparr>rd_addMagnet = (\<lambda>history magnet. Inr (Some ''QX7ZV2JKRD4LM'')),
      rd_selectFiles = (\<lambda>history torrentId. Inr ()),
      rd_info = (\<lambda>history torrentId. Inr (Some info)),
      rd_torrents_get = (\<lambda>history. Inr []),
      rd_delete = (\<lambda>history torrentId. Inr ())\<rparr>"

definition video_file :: rd_file where
  "video_file = \<lparr>f_path = ''/Heat.1995.1080p.BluRay.x264.mkv'', f_bytes = 1288490188,
                  f_selected = True, f_id = 1\<rparr>"

definition scr_file :: rd_file where
  "scr_file = \<lparr>f_path = ''/Bonus/Setup.scr'', f_bytes = 734003, f_selected = True, f_id = 2\<rparr>"

definition rar_file :: rd_file where
  "rar_file = \<lparr>f_path = ''/Extras/Subs.RAR'', f_bytes = 2097152, f_selected = True, f_id = 2\<rparr>"

definition downloaded_with_scr :: rd_info where
  "downloaded_with_scr =
     \<lparr>i_status = Some ''downloaded'', i_files = Some [video_file, scr_file],
      i_filename = Some ''Heat.1995.1080p.BluRay.x264''\<rparr>"

definition downloaded_with_rar :: rd_info where
  "downloaded_with_rar =
     \<lparr>i_status = Some ''downloaded'', i_files = Some [rar_file, video_file],
      i_filename = Some ''Heat.1995.1080p.BluRay.x264''\<rparr>"

definition magnet_error_info :: rd_info where
  "magnet_error_info =
     \<lparr>i_status = Some ''magnet_error'', i_files = Some [video_file],
      i_filename = Some ''Heat.1995.1080p.BluRay.x264''\<rparr>"

definition downloaded_video_only :: rd_info where
  "downloaded_video_only =
     \<lparr>i_status = Some ''downloaded'', i_files = Some [video_file],
      i_filename = Some ''Heat.1995.1080p.BluRay.x264''\<rparr>"

definition sample_hash :: string where
  "sample_hash = ''c9e15763f722f23e98a29decdfae341b98d53056''"

definition sample_config :: app_config where
  "sample_config =
     \<lparr>BITMAGNET_ENABLED = False, JACKETT_ENABLED = True, TORRENTIO_ENABLED = True,
      ZILEAN_ENABLED = False, COMET_ENABLED = False, STREMTHRU_ENABLED = False,
      BT4G_ENABLED = False, TORRENT_GALAXY_ENABLED = False, TORRENT_DOWNLOAD_ENABLED = False,
      SNOWFL_ENABLED = False, MAX_PACKS_TO_INSPECT = None,
      PRIORITY_PENALTY_AAC_OPUS_ENABLED = False\<rparr>"

definition mongo_off :: mongo_config where
  "mongo_off = \<lparr>MONGO_CACHE_ENABLED = False, MONGO_URI = None, MONGO_CACHE_TTL_DAYS = None\<rparr>"


definition mongo_on :: mongo_config where
  "mongo_on = \<lparr>MONGO_CACHE_ENABLED = True, MONGO_URI = Some ''mongodb://cache:27017'',
                MONGO_CACHE_TTL_DAYS = None\<rparr>"

definition stored_doc :: cache_doc where
  "stored_doc =
     \<lparr>doc_service = ''realdebrid'', doc_hash = ''c9e15763f722f23e98a29decdfae341b98d53056'',
      doc_fileName = Some ''Heat.1995.1080p.BluRay.x264.mkv'', doc_size = Some 1288490188,
      doc_data = None, doc_releaseKey = Some ''movie:tt0113277'', doc_category = Some ''BluRay'',
      doc_resolution = Some ''1080p'', doc_updatedAt = 1700000000000,
      doc_expiresAt = 1702592000000, doc_createdAt = 1700000000000\<rparr>"

definition store_up :: mongo_backend where
  "store_up = \<lparr>connect_error = None, write_error = None, read_error = None, docs = [stored_doc]\<rparr>"

definition store_down :: mongo_backend where
  "store_down = \<lparr>connect_error = Some ''ECONNREFUSED'', write_error = None, read_error = None,
                  docs = []\<rparr>"


definition sample_record :: cache_record where
  "sample_record =
     \<lparr>rec_service = Some ''realdebrid'', rec_hash = Some ''C9E15763F722F23E98A29DECDFAE341B98D53056'',
      rec_fileName = Some ''Heat.1995.1080p.BluRay.x264.mkv'', rec_size = Some 1288490188,
      rec_data = None, rec_releaseKey = Some ''movie:tt0113277'', rec_category = Some ''BluRay'',
      rec_resolution = Some ''1080p''\<rparr>"

text \<open>Six personal files: one per high-quality category at each high resolution.\<close>

definition personal_file :: "string \<Rightarrow> string \<Rightarrow> string \<Rightarrow> int \<Rightarrow> torrent" where
  "personal_file name category resolution bytes =
     empty_torrent\<lparr>t_name := Some name, t_size := Some bytes, t_isPersonal := True,
                   t_isCached := Some True, t_tracker := Some ''Personal'',
                   t_category := Some category, t_resolution := Some resolution\<rparr>"

definition six_personal_files :: "torrent list" where
  "six_personal_files =
     [personal_file ''Heat.1995.1080p.BluRay.x264.mkv'' ''BluRay'' ''1080p'' 12884901888,
      personal_file ''Heat.1995.2160p.UHD.BluRay.x265.mkv'' ''BluRay'' ''2160p'' 32212254720,
      personal_file ''Heat.1995.1080p.Remux.AVC.mkv'' ''Remux'' ''1080p'' 34359738368,
      personal_file ''Heat.1995.2160p.Remux.HEVC.mkv'' ''Remux'' ''2160p'' 64424509440,
      personal_file ''Heat.1995.1080p.WEB-DL.H264.mkv'' ''WEB/WEB-DL'' ''1080p'' 8589934592,
      personal_file ''Heat.1995.2160p.WEB-DL.HEVC.mkv'' ''WEB/WEB-DL'' ''2160p'' 21474836480]"

definition one_per_quality :: process_env where
  "one_per_quality =
     \<lparr>MAX_RESULTS_PER_QUALITY = Some ''1'', MAX_RESULTS_REMUX = None, MAX_RESULTS_BLURAY = None,
      MAX_RESULTS_WEBDL = None, MAX_RESULTS_WEBRIP = None, MAX_RESULTS_AUDIO = None,
      MAX_RESULTS_OTHER = None\<rparr>"

text \<open>An environment that leaves only \<open>Remux\<close> with a positive limit, of 2.\<close>

definition remux_only :: process_env where
  "remux_only =
     \<lparr>MAX_RESULTS_PER_QUALITY = None, MAX_RESULTS_REMUX = Some ''2'', MAX_RESULTS_BLURAY = Some ''-1'',
      MAX_RESULTS_WEBDL = Some ''-1'', MAX_RESULTS_WEBRIP = None, MAX_RESULTS_AUDIO = None,
      MAX_RESULTS_OTHER = None\<rparr>"

definition sample_world :: collaborators where
  "sample_world =
     \<lparr>Cinemeta_getMeta = (\<lambda>type imdbId. Inr (Some \<lparr>m_name = ''Heat'', m_year = Some ''1995''\<rparr>)),
      searchPersonalFiles = (\<lambda>apiKey searchKey. six_personal_files),
      run_scraper = (\<lambda>sc args langs. Inr []),
      matchesCandidateTitle = (\<lambda>search title t. True),
      filterByYear = (\<lambda>t details. True),
      processAndFilterTorrents = (\<lambda>ts h episodeInfo q st. (Inr [], st))\<rparr>"

definition sample_environment :: environment where
  "sample_environment =
     \<lparr>config = sample_config, mongo = mongo_off, store = store_down, env = one_per_quality,
      helpers = sample_utils, RD = sample_provider downloaded_video_only, world = sample_world\<rparr>"

definition sample_user_config :: user_config where
  "sample_user_config = \<lparr>Languages = None\<rparr>"

text \<open>Two formatted results: \<open>2160p\<close> of 1 GB and \<open>720p\<close> of 5 GB.\<close>

definition candidate_of :: "string \<Rightarrow> int \<Rightarrow> torrent" where
  "candidate_of name bytes =
     empty_torrent\<lparr>t_Title := Some name, t_Size := Some bytes, t_isCached := Some True\<rparr>"

definition result_of :: "string \<Rightarrow> int \<Rightarrow> result" where
  "result_of name bytes =
     formatCachedResult sample_utils (candidate_of name bytes) (t_isCached (candidate_of name bytes))"

definition result_2160p_1GB :: result where
  "result_2160p_1GB = result_of ''Heat.1995.2160p.WEB-DL.HEVC.mkv'' 1073741824"

definition result_720p_5GB :: result where
  "result_720p_5GB = result_of ''Heat.1995.720p.BluRay.x264.mkv'' 5368709120"

text \<open>Two candidates of two producers with one infohash, in different letter case.\<close>

definition first_candidate :: torrent where
  "first_candidate =
     empty_torrent\<lparr>t_Title := Some ''Heat.1995.1080p.BluRay.x264-FIRST'',
                   t_InfoHash := Some ''C9E15763F722F23E98A29DECDFAE341B98D53056'',
                   t_Seeders := Some 120, t_Tracker := Some ''Jackett''\<rparr>"

definition second_candidate :: torrent where
  "second_candidate =
     empty_torrent\<lparr>t_Title := Some ''Heat.1995.1080p.BluRay.x264-SECOND'',
                   t_InfoHash := Some ''c9e15763f722f23e98a29decdfae341b98d53056'',
                   t_Seeders := Some 7, t_Tracker := Some ''Torrentio''\<rparr>"

text \<open>A candidate of the first producer with an infohash of its own.\<close>

definition third_candidate :: torrent where
  "third_candidate =
     empty_torrent\<lparr>t_Title := Some ''Heat.1995.2160p.UHD.BluRay.x265-THIRD'',
                   t_InfoHash := Some ''0a1b2c3d4e5f60718293a4b5c6d7e8f901234567'',
                   t_Seeders := Some 31, t_Tracker := Some ''Jackett''\<rparr>"

text \<open>
  The distinct elements of a list, each at the place of its first occurrence: what the
  keys of the aggregation are compared with.
\<close>

fun first_occurrences :: "'a list \<Rightarrow> 'a list" where
  "first_occurrences [] = []"
| "first_occurrences (k # ks) = k # filter (\<lambda>x. x \<noteq> k) (first_occurrences ks)"

definition four_pack_hashes :: "string list" where
  "four_pack_hashes =
     [''0a1b2c3d4e5f60718293a4b5c6d7e8f901234567'', ''1b2c3d4e5f60718293a4b5c6d7e8f90123456780'',
      ''2c3d4e5f60718293a4b5c6d7e8f9012345678901'', ''3d4e5f60718293a4b5c6d7e8f901234567890123'']"

section \<open>Properties of the search\<close>

subsection \<open>The guard on the identifier\<close>

text \<open>
  Claim C10. Called with an \<open>id\<close> that is \<open>null\<close>, \<open>undefined\<close> or not a string, whatever
  the key, the type and the user's configuration, \<open>searchRealDebridTorrents\<close> returns
  the empty list at once: the record of the run is empty, so neither the metadata
  service nor a producer nor the provider was contacted.
\<close>

theorem search_rejects_non_string_id:
  "(\<forall>s. ident \<noteq> JString s) \<Longrightarrow>
     fst (searchRealDebridTorrents E apiKey type ident userConfig) = Inr []
     \<and> events (snd (searchRealDebridTorrents E apiKey type ident userConfig)) = []"
  by (cases ident) (simp_all add: searchRealDebridTorrents_def initial_state_def)

theorem search_rejects_non_string_id_witness:
  "fst (searchRealDebridTorrents sample_environment ''KEY'' ''movie'' JNull sample_user_config) = Inr []
   \<and> events (snd (searchRealDebridTorrents sample_environment ''KEY'' ''movie'' JUndefined
        sample_user_config)) = []
   \<and> fst (searchRealDebridTorrents sample_environment ''KEY'' ''movie'' (JNumber 113277)
        sample_user_config) = Inr []"
  using search_rejects_non_string_id [of JNull sample_environment "''KEY''" "''movie''" sample_user_config]
    search_rejects_non_string_id [of JUndefined sample_environment "''KEY''" "''movie''" sample_user_config]
    search_rejects_non_string_id [of "JNumber 113277" sample_environment "''KEY''" "''movie''"
      sample_user_config]
  by simp

subsection \<open>The quota gate\<close>

lemma gate_characterisation:
  "personalHighResSatisfied limits counts \<longleftrightarrow>
     (\<forall>cat \<in> set HQ_CATEGORIES. \<forall>res \<in> set HQ_RES. \<forall>limit.
        limits cat = Some limit \<longrightarrow> limit \<le> int (count_at counts cat res))"
  by (auto simp: personalHighResSatisfied_def HQ_CATEGORIES_def HQ_RES_def split: option.splits)

text \<open>
  Claim C2. For every assignment of limits to categories and every mapping of counts,
  the gate holds if and only if, for each of \<open>Remux\<close>, \<open>BluRay\<close> and \<open>WEB/WEB-DL\<close> that has a
  limit, the count at \<open>2160p\<close> and the count at \<open>1080p\<close> each reach it. With the limit
  \<open>Remux: 2\<close> and the counts \<open>Remux: {2160p: 2, 1080p: 2}\<close> it holds; with the \<open>1080p\<close>
  count lowered to 1 it does not.
\<close>

theorem isHighResSatisfied_iff:
  "(personalHighResSatisfied limits counts \<longleftrightarrow>
      (\<forall>cat \<in> set HQ_CATEGORIES. \<forall>res \<in> set HQ_RES. \<forall>limit.
         limits cat = Some limit \<longrightarrow> limit \<le> int (count_at counts cat res)))
   \<and> personalHighResSatisfied [''Remux'' \<mapsto> 2] [''Remux'' \<mapsto> [''2160p'' \<mapsto> 2, ''1080p'' \<mapsto> 2]]
   \<and> \<not> personalHighResSatisfied [''Remux'' \<mapsto> 2] [''Remux'' \<mapsto> [''2160p'' \<mapsto> 2, ''1080p'' \<mapsto> 1]]"
proof (intro conjI)
  show "personalHighResSatisfied limits counts \<longleftrightarrow>
      (\<forall>cat \<in> set HQ_CATEGORIES. \<forall>res \<in> set HQ_RES. \<forall>limit.
         limits cat = Some limit \<longrightarrow> limit \<le> int (count_at counts cat res))"
    by (rule gate_characterisation)
  show "personalHighResSatisfied [''Remux'' \<mapsto> 2] [''Remux'' \<mapsto> [''2160p'' \<mapsto> 2, ''1080p'' \<mapsto> 2]]"
    by (simp add: personalHighResSatisfied_def HQ_CATEGORIES_def HQ_RES_def count_at_def count_or_0_def)
  show "\<not> personalHighResSatisfied [''Remux'' \<mapsto> 2] [''Remux'' \<mapsto> [''2160p'' \<mapsto> 2, ''1080p'' \<mapsto> 1]]"
    by (simp add: personalHighResSatisfied_def HQ_CATEGORIES_def HQ_RES_def count_at_def count_or_0_def)
qed

text \<open>
  The limits the search builds from the environment are numbers for the three
  high-quality categories, and never zero: an unset, unreadable or zero variable falls
  back to the default.
\<close>

lemma num_or_nonzero: "d \<noteq> 0 \<Longrightarrow> num_or x d \<noteq> 0"
  by (simp add: num_or_def split: option.splits)

lemma rdQualityLimits_high_quality:
  "rdQualityLimits penv ''Remux'' = Some (num_or (parseInt (MAX_RESULTS_REMUX penv)) (rdDefaultMax penv))"
  "rdQualityLimits penv ''BluRay'' = Some (num_or (parseInt (MAX_RESULTS_BLURAY penv)) (rdDefaultMax penv))"
  "rdQualityLimits penv ''WEB/WEB-DL'' = Some (num_or (parseInt (MAX_RESULTS_WEBDL penv)) (rdDefaultMax penv))"
  by (simp_all add: rdQualityLimits_def)

lemma rdQualityLimits_numbers:
  assumes "cat \<in> set HQ_CATEGORIES"
  shows "\<exists>limit. rdQualityLimits penv cat = Some limit \<and> limit \<noteq> 0"
proof -
  have "rdDefaultMax penv \<noteq> 0"
    unfolding rdDefaultMax_def by (rule num_or_nonzero) simp
  then have "num_or x (rdDefaultMax penv) \<noteq> 0" for x
    by (rule num_or_nonzero)
  moreover have "cat = ''Remux'' \<or> cat = ''BluRay'' \<or> cat = ''WEB/WEB-DL''"
    using assms by (simp add: HQ_CATEGORIES_def)
  ultimately show ?thesis
    using rdQualityLimits_high_quality [of penv] by auto
qed

lemma remux_only_limits:
  "rdQualityLimits remux_only ''Remux'' = Some 2" "rdQualityLimits remux_only ''BluRay'' = Some (- 1)"
  "rdQualityLimits remux_only ''WEB/WEB-DL'' = Some (- 1)"
  by (simp_all add: rdQualityLimits_def rdDefaultMax_def remux_only_def parseInt_def is_space_def
      digit_value_def digits_value_def num_or_def)

theorem isHighResSatisfied_iff_witness:
  "personalHighResSatisfied [''Remux'' \<mapsto> 2, ''BluRay'' \<mapsto> 1]
     [''Remux'' \<mapsto> [''2160p'' \<mapsto> 2, ''1080p'' \<mapsto> 3],
      ''BluRay'' \<mapsto> [''2160p'' \<mapsto> 1, ''1080p'' \<mapsto> 1, ''720p'' \<mapsto> 4]]
   \<and> \<not> personalHighResSatisfied [''Remux'' \<mapsto> 2, ''BluRay'' \<mapsto> 1]
          [''Remux'' \<mapsto> [''2160p'' \<mapsto> 2, ''1080p'' \<mapsto> 3], ''BluRay'' \<mapsto> [''1080p'' \<mapsto> 5]]
   \<and> personalHighResSatisfied (rdQualityLimits remux_only)
         [''Remux'' \<mapsto> [''2160p'' \<mapsto> 2, ''1080p'' \<mapsto> 2]]
   \<and> \<not> personalHighResSatisfied (rdQualityLimits remux_only)
         [''Remux'' \<mapsto> [''2160p'' \<mapsto> 2, ''1080p'' \<mapsto> 1]]"
  using isHighResSatisfied_iff
          [of "rdQualityLimits remux_only" "[''Remux'' \<mapsto> [''2160p'' \<mapsto> 2, ''1080p'' \<mapsto> 2]]"]
        isHighResSatisfied_iff
          [of "rdQualityLimits remux_only" "[''Remux'' \<mapsto> [''2160p'' \<mapsto> 2, ''1080p'' \<mapsto> 1]]"]
        isHighResSatisfied_iff
          [of "[''Remux'' \<mapsto> 2, ''BluRay'' \<mapsto> 1]"
              "[''Remux'' \<mapsto> [''2160p'' \<mapsto> 2, ''1080p'' \<mapsto> 3],
                ''BluRay'' \<mapsto> [''2160p'' \<mapsto> 1, ''1080p'' \<mapsto> 1, ''720p'' \<mapsto> 4]]"]
        isHighResSatisfied_iff
          [of "[''Remux'' \<mapsto> 2, ''BluRay'' \<mapsto> 1]"
              "[''Remux'' \<mapsto> [''2160p'' \<mapsto> 2, ''1080p'' \<mapsto> 3], ''BluRay'' \<mapsto> [''1080p'' \<mapsto> 5]]"]
  by (simp add: HQ_CATEGORIES_def HQ_RES_def count_at_def count_or_0_def remux_only_limits)

subsection \<open>The final sort\<close>

lemma js_insert_mset: "mset (js_insert c x ys) = add_mset x (mset ys)"
  by (induction ys) auto

lemma js_sort_mset: "mset (js_sort c xs) = mset xs"
  by (induction xs) (auto simp: js_sort_def js_insert_mset)

lemma js_insert_set: "set (js_insert c x ys) = insert x (set ys)"
  by (induction ys) auto

lemma compare_spec_order:
  "rank_of u a \<noteq> None \<Longrightarrow> rank_of u b \<noteq> None \<Longrightarrow>
     (cmp_value (compareResults u a b) \<le> 0) = spec_order u a b"
  by (auto simp: compareResults_def spec_order_def cmp_value_def num_or_def Let_def)

lemma spec_order_total:
  "rank_of u a \<noteq> None \<Longrightarrow> rank_of u b \<noteq> None \<Longrightarrow> \<not> spec_order u a b \<Longrightarrow> spec_order u b a"
  by (auto simp: spec_order_def)

lemma spec_order_trans:
  "spec_order u a b \<Longrightarrow> spec_order u b c \<Longrightarrow> spec_order u a c"
  by (auto simp: spec_order_def split: option.splits)

lemma sorted_js_insert:
  assumes "rank_of u x \<noteq> None" "\<forall>y \<in> set ys. rank_of u y \<noteq> None"
    "sorted_wrt (spec_order u) ys"
  shows "sorted_wrt (spec_order u) (js_insert (compareResults u) x ys)"
  using assms
proof (induction ys)
  case Nil
  then show ?case by simp
next
  case (Cons y ys)
  show ?case
  proof (cases "cmp_value (compareResults u x y) \<le> 0")
    case True
    then have xy: "spec_order u x y" using Cons.prems by (simp add: compare_spec_order)
    then have "\<forall>z \<in> set ys. spec_order u x z"
      using Cons.prems(3) spec_order_trans by auto
    then show ?thesis using True xy Cons.prems(3) by simp
  next
    case False
    then have "spec_order u y x"
      using Cons.prems spec_order_total by (simp add: compare_spec_order)
    then show ?thesis
      using False Cons by (auto simp: js_insert_set)
  qed
qed

lemma sortResults_sorted:
  "\<forall>r \<in> set rs. rank_of u r \<noteq> None \<Longrightarrow> sorted_wrt (spec_order u) (sortResults u rs)"
proof (induction rs)
  case Nil
  then show ?case by (simp add: sortResults_def js_sort_def)
next
  case (Cons r rs)
  have "set (foldr (js_insert (compareResults u)) rs []) = set rs"
    using js_sort_mset[of "compareResults u" rs] by (metis js_sort_def mset_eq_setD)
  then show ?case
    using Cons sorted_js_insert[of u r "foldr (js_insert (compareResults u)) rs []"]
    by (simp add: sortResults_def js_sort_def)
qed

lemma sort_pair:
  "rank_of u a = Some x \<Longrightarrow> rank_of u b = Some y \<Longrightarrow> y < x \<Longrightarrow>
     sortResults u [b, a] = [a, b] \<and> sortResults u [a, b] = [a, b]"
  by (auto simp: sortResults_def js_sort_def compareResults_def cmp_value_def Let_def)

text \<open>
  Claim C7. For every list of personal files and every list of verified results, when
  the rank table has an entry for the resolution of each result, the final sort
  returns the same results ordered by descending rank, ties broken by descending size.
  Hence of two results the one of higher rank comes first whatever their sizes: a
  \<open>2160p\<close> result of 1 GB before a \<open>720p\<close> result of 5 GB.
\<close>

theorem final_sort_order:
  "((\<forall>r \<in> set (map (\<lambda>torrent. formatCachedResult u torrent (t_isCached torrent))
                   (personalFiles @ cachedResults)). rank_of u r \<noteq> None) \<longrightarrow>
      sorted_wrt (spec_order u)
        (sortResults u (map (\<lambda>torrent. formatCachedResult u torrent (t_isCached torrent))
           (personalFiles @ cachedResults)))
      \<and> mset (sortResults u (map (\<lambda>torrent. formatCachedResult u torrent (t_isCached torrent))
           (personalFiles @ cachedResults)))
          = mset (map (\<lambda>torrent. formatCachedResult u torrent (t_isCached torrent))
           (personalFiles @ cachedResults)))
   \<and> (rank_of u a = Some x \<and> rank_of u b = Some y \<and> y < x \<longrightarrow>
        sortResults u [b, a] = [a, b] \<and> sortResults u [a, b] = [a, b])"
  using sortResults_sorted [of "map (\<lambda>torrent. formatCachedResult u torrent (t_isCached torrent))
                   (personalFiles @ cachedResults)" u]
    sort_pair [of u a x b y]
  by (simp add: sortResults_def js_sort_mset)

lemma sample_ranks:
  "rank_of sample_utils result_2160p_1GB = Some 4" "rank_of sample_utils result_720p_5GB = Some 2"
  "r_size result_2160p_1GB = 1073741824" "r_size result_720p_5GB = 5368709120"
  by code_simp+

theorem final_sort_order_witness:
  "sortResults sample_utils [result_720p_5GB, result_2160p_1GB] = [result_2160p_1GB, result_720p_5GB]
   \<and> sorted_wrt (spec_order sample_utils) (sortResults sample_utils [result_720p_5GB, result_2160p_1GB])
   \<and> r_size result_2160p_1GB = 1073741824 \<and> r_size result_720p_5GB = 5368709120"
proof -
  have formatted:
    "map (\<lambda>torrent. formatCachedResult sample_utils torrent (t_isCached torrent))
       ([] @ [candidate_of ''Heat.1995.720p.BluRay.x264.mkv'' 5368709120,
              candidate_of ''Heat.1995.2160p.WEB-DL.HEVC.mkv'' 1073741824])
     = [result_720p_5GB, result_2160p_1GB]"
    by (simp add: result_720p_5GB_def result_2160p_1GB_def result_of_def)
  note at_sample =
    final_sort_order
      [of sample_utils "[]"
          "[candidate_of ''Heat.1995.720p.BluRay.x264.mkv'' 5368709120,
            candidate_of ''Heat.1995.2160p.WEB-DL.HEVC.mkv'' 1073741824]"
          result_2160p_1GB 4 result_720p_5GB 2, unfolded formatted]
  have swapped:
    "sortResults sample_utils [result_720p_5GB, result_2160p_1GB] = [result_2160p_1GB, result_720p_5GB]"
    using at_sample by (simp add: sample_ranks)
  have ranked: "\<forall>r \<in> set [result_720p_5GB, result_2160p_1GB]. rank_of sample_utils r \<noteq> None"
    by (simp add: sample_ranks)
  have ordered:
    "sorted_wrt (spec_order sample_utils) (sortResults sample_utils [result_720p_5GB, result_2160p_1GB])"
    using at_sample ranked by blast
  show ?thesis
    by (intro conjI swapped ordered) (simp_all add: sample_ranks)
qed

subsection \<open>The early exit\<close>

lemma deferMongoUpserts_calls:
  "producer_calls (events (deferMongoUpserts m ps st)) = producer_calls (events st)"
  "provider_calls (events (deferMongoUpserts m ps st)) = provider_calls (events st)"
  "torrentIdsToDelete (deferMongoUpserts m ps st) = torrentIdsToDelete st"
  by (simp_all add: deferMongoUpserts_def record_event_def producer_calls_def provider_calls_def)

lemma early_exit_calls:
  "producer_calls (events (snd (early_exit E k pf st))) = producer_calls (events st)"
  "provider_calls (events (snd (early_exit E k pf st))) = provider_calls (events st)"
  "torrentIdsToDelete (snd (early_exit E k pf st)) = torrentIdsToDelete st"
  by (simp_all add: early_exit_def deferMongoUpserts_calls)

lemma mongoCounts_calls:
  "producer_calls (events (snd (mongoCounts_of E k st))) = producer_calls (events st)"
  "provider_calls (events (snd (mongoCounts_of E k st))) = provider_calls (events st)"
  "torrentIdsToDelete (snd (mongoCounts_of E k st)) = torrentIdsToDelete st"
  by (simp_all add: mongoCounts_of_def record_event_def producer_calls_def provider_calls_def)

lemma search_try_early:
  assumes "personalHighResSatisfied (rdQualityLimits (env E))
             (snd (personal_counts (enrichedPersonalFiles (config E) (helpers E)
                (personalFiles_of E apiKey type season episode cinemetaDetails))))"
  shows "search_try E apiKey type imdbId season episode cinemetaDetails userConfig st =
           (Inr (fst (early_exit E (makeReleaseKey type imdbId (episodeInfo_of type season episode))
                   (personalFiles_of E apiKey type season episode cinemetaDetails)
                   (snd (mongoCounts_of E (makeReleaseKey type imdbId (episodeInfo_of type season episode))
                      (record_event (PersonalSearch (m_name cinemetaDetails)) st))))),
            snd (early_exit E (makeReleaseKey type imdbId (episodeInfo_of type season episode))
                   (personalFiles_of E apiKey type season episode cinemetaDetails)
                   (snd (mongoCounts_of E (makeReleaseKey type imdbId (episodeInfo_of type season episode))
                      (record_event (PersonalSearch (m_name cinemetaDetails)) st)))))"
  using assms by (simp add: search_try_def Let_def split: prod.splits)

text \<open>The run of the search when the gate is met: the early exit is taken.\<close>

lemma early_exit_run:
  assumes "s \<noteq> []"
    and "Cinemeta_getMeta (world E) type (imdbId_of s) = Inr (Some cinemetaDetails)"
    and "personalHighResSatisfied (rdQualityLimits (env E))
           (snd (personal_counts (enrichedPersonalFiles (config E) (helpers E)
              (personalFiles_of E apiKey type (season_of s) (episode_of s) cinemetaDetails))))"
  shows "fst (searchRealDebridTorrents E apiKey type (JString s) userConfig)
               = Inr (sortResults (helpers E)
                   (map (\<lambda>torrent. formatCachedResult (helpers E) torrent (Some True))
                      (personalFiles_of E apiKey type (season_of s) (episode_of s) cinemetaDetails)))
       \<and> producer_calls (events (snd (searchRealDebridTorrents E apiKey type (JString s) userConfig))) = []
       \<and> provider_calls (events (snd (searchRealDebridTorrents E apiKey type (JString s) userConfig))) = []"
proof -
  let ?st0 = "record_event (MetaLookup type (imdbId_of s)) initial_state"
  let ?st1 = "record_event (PersonalSearch (m_name cinemetaDetails)) ?st0"
  have st1: "producer_calls (events ?st1) = []" "provider_calls (events ?st1) = []"
    "torrentIdsToDelete ?st1 = []"
    by (simp_all add: record_event_def initial_state_def producer_calls_def provider_calls_def)
  show ?thesis
    using assms(1,2) st1
    by (simp add: searchRealDebridTorrents_def search_with_id_def Let_def
        search_try_early[OF assms(3)] early_exit_calls mongoCounts_calls)
      (simp add: early_exit_def)
qed

text \<open>
  Claim C1. When the metadata of the title is found and the personal files of the
  search alone meet the gate (for every high-quality category, the count of personal
  files at \<open>2160p\<close> and at \<open>1080p\<close> reaches the category's limit), \<open>searchRealDebridTorrents\<close>
  returns a list that holds exactly the personal files, formatted as cached, each as
  often as it was found; the list is in the order of the final sort (descending rank of
  resolution, then descending size) when the rank table has an entry for the
  resolution of each of them; and the record of the run holds no call of a producer and
  no provider call of the verification, of pack inspection or of the clean-up (no
  \<open>addMagnet\<close>, \<open>selectFiles\<close>, \<open>info\<close> or \<open>delete\<close>). The listings the personal search reads
  are its own entry of the record.
\<close>

theorem early_exit_no_producers:
  assumes "s \<noteq> []"
    and "Cinemeta_getMeta (world E) type (imdbId_of s) = Inr (Some cinemetaDetails)"
    and "\<forall>cat \<in> set HQ_CATEGORIES. \<forall>res \<in> set HQ_RES. \<forall>limit.
           rdQualityLimits (env E) cat = Some limit \<longrightarrow>
           limit \<le> int (count_at
                        (snd (personal_counts (enrichedPersonalFiles (config E) (helpers E)
                           (personalFiles_of E apiKey type (season_of s) (episode_of s) cinemetaDetails))))
                        cat res)"
  shows "(\<exists>allResults.
            fst (searchRealDebridTorrents E apiKey type (JString s) userConfig) = Inr allResults
          \<and> mset allResults
              = mset (map (\<lambda>torrent. formatCachedResult (helpers E) torrent (Some True))
                   (personalFiles_of E apiKey type (season_of s) (episode_of s) cinemetaDetails))
          \<and> ((\<forall>r \<in> set (map (\<lambda>torrent. formatCachedResult (helpers E) torrent (Some True))
                         (personalFiles_of E apiKey type (season_of s) (episode_of s) cinemetaDetails)).
                  rank_of (helpers E) r \<noteq> None) \<longrightarrow>
               sorted_wrt (spec_order (helpers E)) allResults))
       \<and> producer_calls (events (snd (searchRealDebridTorrents E apiKey type (JString s) userConfig))) = []
       \<and> provider_calls (events (snd (searchRealDebridTorrents E apiKey type (JString s) userConfig))) = []"
proof -
  let ?formatted = "map (\<lambda>torrent. formatCachedResult (helpers E) torrent (Some True))
                      (personalFiles_of E apiKey type (season_of s) (episode_of s) cinemetaDetails)"
  have gate: "personalHighResSatisfied (rdQualityLimits (env E))
           (snd (personal_counts (enrichedPersonalFiles (config E) (helpers E)
              (personalFiles_of E apiKey type (season_of s) (episode_of s) cinemetaDetails))))"
    using assms(3) by (simp only: gate_characterisation)
  note run = early_exit_run [OF assms(1,2) gate, of userConfig]
  have same: "mset (sortResults (helpers E) ?formatted) = mset ?formatted"
    by (simp add: sortResults_def js_sort_mset)
  have ordered: "(\<forall>r \<in> set ?formatted. rank_of (helpers E) r \<noteq> None) \<longrightarrow>
                   sorted_wrt (spec_order (helpers E)) (sortResults (helpers E) ?formatted)"
    using sortResults_sorted[of ?formatted "helpers E"] by blast
  show ?thesis
    using run same ordered by blast
qed

lemma sample_personalFiles:
  "personalFiles_of sample_environment ''KEY'' ''movie'' (season_of ''tt0113277'') (episode_of ''tt0113277'')
     \<lparr>m_name = ''Heat'', m_year = Some ''1995''\<rparr> = six_personal_files"
  by (simp add: personalFiles_of_def filter_personal_def episodeInfo_of_def sample_environment_def
      sample_world_def)

lemma sample_gate:
  "personalHighResSatisfied (rdQualityLimits (env sample_environment))
     (snd (personal_counts (enrichedPersonalFiles (config sample_environment) (helpers sample_environment)
        six_personal_files)))"
  by code_simp

lemma sample_personal_ranks:
  "\<forall>r \<in> set (map (\<lambda>torrent. formatCachedResult sample_utils torrent (Some True)) six_personal_files).
     rank_of sample_utils r \<noteq> None"
  by code_simp

text \<open>The six personal files, found unsorted, in the order of the final sort.\<close>

lemma sample_sorted_names:
  "map (\<lambda>r. (r_name r, r_size r))
     (sortResults sample_utils
        (map (\<lambda>torrent. formatCachedResult sample_utils torrent (Some True)) six_personal_files))
   = [(''Heat.1995.2160p.Remux.HEVC.mkv'', 64424509440),
      (''Heat.1995.2160p.UHD.BluRay.x265.mkv'', 32212254720),
      (''Heat.1995.2160p.WEB-DL.HEVC.mkv'', 21474836480),
      (''Heat.1995.1080p.Remux.AVC.mkv'', 34359738368),
      (''Heat.1995.1080p.BluRay.x264.mkv'', 12884901888),
      (''Heat.1995.1080p.WEB-DL.H264.mkv'', 8589934592)]"
  by code_simp

theorem early_exit_no_producers_witness:
  "(\<exists>allResults.
      fst (searchRealDebridTorrents sample_environment ''KEY'' ''movie'' (JString ''tt0113277'')
         sample_user_config) = Inr allResults
    \<and> mset allResults
        = mset (map (\<lambda>torrent. formatCachedResult sample_utils torrent (Some True)) six_personal_files)
    \<and> sorted_wrt (spec_order sample_utils) allResults
    \<and> map (\<lambda>r. (r_name r, r_size r)) allResults
        = [(''Heat.1995.2160p.Remux.HEVC.mkv'', 64424509440),
           (''Heat.1995.2160p.UHD.BluRay.x265.mkv'', 32212254720),
           (''Heat.1995.2160p.WEB-DL.HEVC.mkv'', 21474836480),
           (''Heat.1995.1080p.Remux.AVC.mkv'', 34359738368),
           (''Heat.1995.1080p.BluRay.x264.mkv'', 12884901888),
           (''Heat.1995.1080p.WEB-DL.H264.mkv'', 8589934592)])
   \<and> producer_calls (events (snd (searchRealDebridTorrents sample_environment ''KEY'' ''movie''
        (JString ''tt0113277'') sample_user_config))) = []
   \<and> provider_calls (events (snd (searchRealDebridTorrents sample_environment ''KEY'' ''movie''
        (JString ''tt0113277'') sample_user_config))) = []"
proof -
  let ?run = "searchRealDebridTorrents sample_environment ''KEY'' ''movie'' (JString ''tt0113277'')
                sample_user_config"
  let ?formatted = "map (\<lambda>torrent. formatCachedResult sample_utils torrent (Some True)) six_personal_files"
  have nonempty: "''tt0113277'' \<noteq> []"
    by simp
  have meta: "Cinemeta_getMeta (world sample_environment) ''movie'' (imdbId_of ''tt0113277'')
                = Inr (Some \<lparr>m_name = ''Heat'', m_year = Some ''1995''\<rparr>)"
    by (simp add: sample_environment_def sample_world_def)
  have met: "personalHighResSatisfied (rdQualityLimits (env sample_environment))
           (snd (personal_counts (enrichedPersonalFiles (config sample_environment)
              (helpers sample_environment)
              (personalFiles_of sample_environment ''KEY'' ''movie'' (season_of ''tt0113277'')
                 (episode_of ''tt0113277'') \<lparr>m_name = ''Heat'', m_year = Some ''1995''\<rparr>))))"
    unfolding sample_personalFiles by (rule sample_gate)
  have gate: "\<forall>cat \<in> set HQ_CATEGORIES. \<forall>res \<in> set HQ_RES. \<forall>limit.
           rdQualityLimits (env sample_environment) cat = Some limit \<longrightarrow>
           limit \<le> int (count_at
                        (snd (personal_counts (enrichedPersonalFiles (config sample_environment)
                           (helpers sample_environment)
                           (personalFiles_of sample_environment ''KEY'' ''movie'' (season_of ''tt0113277'')
                              (episode_of ''tt0113277'') \<lparr>m_name = ''Heat'', m_year = Some ''1995''\<rparr>))))
                        cat res)"
    using met by (simp only: gate_characterisation)
  have h: "helpers sample_environment = sample_utils"
    by (simp add: sample_environment_def)
  note at_sample =
    early_exit_no_producers [OF nonempty meta gate, of sample_user_config,
      unfolded sample_personalFiles h]
  note found = at_sample [THEN conjunct1]
  note no_producer = at_sample [THEN conjunct2, THEN conjunct1]
  note no_provider = at_sample [THEN conjunct2, THEN conjunct2]
  from found obtain allResults where
    result: "fst ?run = Inr allResults"
    and same: "mset allResults = mset ?formatted"
    and if_ranked: "(\<forall>r \<in> set ?formatted. rank_of sample_utils r \<noteq> None) \<longrightarrow>
                      sorted_wrt (spec_order sample_utils) allResults"
    by (elim exE conjE)
  have ordered: "sorted_wrt (spec_order sample_utils) allResults"
    using if_ranked sample_personal_ranks by (rule mp)
  note run = early_exit_run [OF nonempty meta met, of sample_user_config,
      unfolded sample_personalFiles h]
  have "allResults = sortResults sample_utils ?formatted"
    using run [THEN conjunct1] unfolding result by (simp only: sum.inject)
  then have names: "map (\<lambda>r. (r_name r, r_size r)) allResults
        = [(''Heat.1995.2160p.Remux.HEVC.mkv'', 64424509440),
           (''Heat.1995.2160p.UHD.BluRay.x265.mkv'', 32212254720),
           (''Heat.1995.2160p.WEB-DL.HEVC.mkv'', 21474836480),
           (''Heat.1995.1080p.Remux.AVC.mkv'', 34359738368),
           (''Heat.1995.1080p.BluRay.x264.mkv'', 12884901888),
           (''Heat.1995.1080p.WEB-DL.H264.mkv'', 8589934592)]"
    by (simp only: sample_sorted_names)
  show ?thesis
    by (intro conjI exI[of _ allResults] result same ordered names no_producer no_provider)
qed

text \<open>
  Past the gate every enabled producer is called, once per selected language: the
  early exit is what keeps them from being called. With limits the six personal files
  do not meet, the sample search calls the two producers it has enabled.
\<close>

lemma run_jobs_snd:
  "snd (run_jobs w (job # jobs) st)
     = snd (run_jobs w jobs (record_event (Producer (fst job) (fst (snd job)) (snd (snd job))) st))"
  by (cases job) (simp split: prod.splits)

lemma run_jobs_calls:
  "producer_calls (events (snd (run_jobs w jobs st)))
     = producer_calls (events st) @ map (\<lambda>(sc, args, langs). Producer sc args langs) jobs"
proof (induction jobs arbitrary: st)
  case Nil
  then show ?case by simp
next
  case (Cons job jobs)
  show ?case
    unfolding run_jobs_snd Cons
    by (cases job) (simp add: record_event_def producer_calls_def)
qed

lemma sample_search_below_quota:
  "producer_calls (events (snd (searchRealDebridTorrents
      (sample_environment\<lparr>env := remux_only\<rparr>) ''KEY'' ''movie'' (JString ''tt0113277'')
      sample_user_config)))
   = [Producer Jackett (ByKey ''Heat 1995'') [], Producer Torrentio (ByImdbId ''movie'' ''tt0113277'') []]"
  by code_simp

subsection \<open>Aggregation: one candidate per infohash\<close>

lemma js_map_set_keys:
  "map fst (js_map_set k v m) = (if k \<in> set (map fst m) then map fst m else map fst m @ [k])"
  by (induction m) auto

lemma js_map_set_map_of: "map_of (js_map_set k v m) = (map_of m)(k \<mapsto> v)"
  by (induction m) (auto simp: fun_eq_iff)

lemma js_new_Map_snoc: "js_new_Map (es @ [(k, v)]) = js_map_set k v (js_new_Map es)"
  by (simp add: js_new_Map_def)

lemma js_new_Map_keys: "map fst (js_new_Map es) = rev (remdups (rev (map fst es)))"
proof (induction es rule: rev_induct)
  case Nil
  then show ?case by (simp add: js_new_Map_def)
next
  case (snoc e es)
  obtain k v where e: "e = (k, v)" by (cases e)
  have "set (map fst (js_new_Map es)) = set (map fst es)"
    using snoc by simp
  then show ?case
    using snoc by (simp add: e js_new_Map_snoc js_map_set_keys)
qed

lemma js_new_Map_map_of: "map_of (js_new_Map es) = map_of (rev es)"
proof (induction es rule: rev_induct)
  case Nil
  then show ?case by (simp add: js_new_Map_def)
next
  case (snoc e es)
  obtain k v where e: "e = (k, v)" by (cases e)
  show ?case
    using snoc by (simp add: e js_new_Map_snoc js_map_set_map_of)
qed

lemma js_new_Map_distinct: "distinct (map fst (js_new_Map es))"
  by (simp add: js_new_Map_keys)

lemma map_of_rev_keyed:
  "map_of (rev (map (\<lambda>t. (f t, t)) xs)) k = Some t \<Longrightarrow>
     f t = k \<and> t = last (filter (\<lambda>c. f c = k) xs)"
  by (induction xs rule: rev_induct) (auto split: if_splits)

lemma unique_keys:
  "map infohash_key (uniqueExternalTorrents ext) = rev (remdups (rev (map infohash_key ext)))"
proof -
  let ?es = "map (\<lambda>t. (infohash_key t, t)) ext"
  have vals: "\<forall>p \<in> set (js_new_Map ?es). fst p = infohash_key (snd p)"
  proof
    fix p assume p: "p \<in> set (js_new_Map ?es)"
    then have "(fst p, snd p) \<in> set (js_new_Map ?es)"
      by simp
    then have "map_of (js_new_Map ?es) (fst p) = Some (snd p)"
      using js_new_Map_distinct[of ?es] by (simp only: map_of_eq_Some_iff)
    then have "map_of (rev ?es) (fst p) = Some (snd p)"
      by (simp add: js_new_Map_map_of)
    then have "infohash_key (snd p) = fst p"
      by (rule map_of_rev_keyed[THEN conjunct1])
    then show "fst p = infohash_key (snd p)"
      by (rule sym)
  qed
  have "map infohash_key (uniqueExternalTorrents ext) = map fst (js_new_Map ?es)"
    using vals by (simp add: uniqueExternalTorrents_def js_map_values_def)
  also have "\<dots> = rev (remdups (rev (map infohash_key ext)))"
    by (simp add: js_new_Map_keys comp_def)
  finally show ?thesis .
qed

lemma unique_last:
  assumes "t \<in> set (uniqueExternalTorrents ext)"
  shows "t = last (filter (\<lambda>c. infohash_key c = infohash_key t) ext)"
proof -
  let ?es = "map (\<lambda>t. (infohash_key t, t)) ext"
  from assms obtain k where k: "(k, t) \<in> set (js_new_Map ?es)"
    by (auto simp: uniqueExternalTorrents_def js_map_values_def)
  then have "map_of (js_new_Map ?es) k = Some t"
    using js_new_Map_distinct[of ?es] by (simp add: map_of_eq_Some_iff)
  then have "map_of (rev ?es) k = Some t"
    by (simp add: js_new_Map_map_of)
  then have a: "infohash_key t = k" and b: "t = last (filter (\<lambda>c. infohash_key c = k) ext)"
    using map_of_rev_keyed[of infohash_key ext k t] by blast+
  show ?thesis
    unfolding a by (rule b)
qed

lemma combine_external_last:
  assumes "t \<in> set (combineAndMarkResults u personalFiles externalSources)" "\<not> t_isPersonal t"
  shows "t = last (filter (\<lambda>c. infohash_key c = infohash_key t) (externalTorrents_of externalSources))"
  using assms unique_last[of t "externalTorrents_of externalSources"]
  by (auto simp: combineAndMarkResults_def Let_def markedPersonal_def)

lemma distinct_map_filter_keys: "distinct (map f xs) \<Longrightarrow> distinct (map f (filter P xs))"
  by (induction xs) auto

lemma unique_distinct: "distinct (map infohash_key (uniqueExternalTorrents ext))"
  by (simp add: unique_keys)

lemma remdups_snoc: "remdups (xs @ [k]) = filter (\<lambda>x. x \<noteq> k) (remdups xs) @ [k]"
  by (induction xs) auto

lemma first_occurrences_remdups: "rev (remdups (rev ks)) = first_occurrences ks"
proof (induction ks)
  case Nil
  then show ?case by simp
next
  case (Cons k ks)
  have "rev (remdups (rev (k # ks))) = k # filter (\<lambda>x. x \<noteq> k) (rev (remdups (rev ks)))"
    by (simp add: remdups_snoc rev_filter)
  then show ?case
    by (simp add: Cons)
qed

lemma unique_characterised:
  "uniqueExternalTorrents ext =
     map (\<lambda>k. last (filter (\<lambda>c. infohash_key c = k) ext)) (first_occurrences (map infohash_key ext))"
proof -
  have "map (\<lambda>t. last (filter (\<lambda>c. infohash_key c = infohash_key t) ext)) (uniqueExternalTorrents ext)
          = uniqueExternalTorrents ext"
    using unique_last[of _ ext] by (intro map_idI) simp
  then have "uniqueExternalTorrents ext =
          map (\<lambda>k. last (filter (\<lambda>c. infohash_key c = k) ext))
            (map infohash_key (uniqueExternalTorrents ext))"
    by (simp add: comp_def)
  then show ?thesis
    by (simp only: unique_keys first_occurrences_remdups)
qed

text \<open>
  Claim C3, as amended. The aggregation step keeps one candidate per lower-cased
  infohash, and it is the last one of the concatenated producer output that carries
  the hash, not the first; it stands where the first candidate of that hash stood.
  Precisely: the deduplicated list is, for each hash in the order of the hashes' first
  occurrences, the last candidate with that hash; the combined list is the marked
  personal files followed by those of these candidates that have a hash no personal
  file has and a valid title; every candidate of the combined list that is not
  personal is the last of its hash; and no two of them share a hash.
\<close>

theorem aggregation_keeps_last_occurrence:
  "uniqueExternalTorrents externalTorrents =
     map (\<lambda>k. last (filter (\<lambda>c. infohash_key c = k) externalTorrents))
       (first_occurrences (map infohash_key externalTorrents))
   \<and> combineAndMarkResults u personalFiles externalSources =
       markedPersonal personalFiles @
       filter (\<lambda>t. isValidTorrentTitle u (t_Title t))
         (filter (\<lambda>t. truthy_str (t_InfoHash t)
                     \<and> toLowerCase (str_or_empty (t_InfoHash t)) \<notin> personalHashes personalFiles)
            (map (\<lambda>k. last (filter (\<lambda>c. infohash_key c = k) (externalTorrents_of externalSources)))
               (first_occurrences (map infohash_key (externalTorrents_of externalSources)))))
   \<and> (t \<in> set (combineAndMarkResults u personalFiles externalSources) \<and> \<not> t_isPersonal t \<longrightarrow>
        t = last (filter (\<lambda>c. infohash_key c = infohash_key t) (externalTorrents_of externalSources)))
   \<and> distinct (map infohash_key
        (filter (\<lambda>c. \<not> t_isPersonal c) (combineAndMarkResults u personalFiles externalSources)))"
proof (intro conjI impI)
  show "uniqueExternalTorrents externalTorrents =
     map (\<lambda>k. last (filter (\<lambda>c. infohash_key c = k) externalTorrents))
       (first_occurrences (map infohash_key externalTorrents))"
    by (rule unique_characterised)
  show "combineAndMarkResults u personalFiles externalSources =
       markedPersonal personalFiles @
       filter (\<lambda>t. isValidTorrentTitle u (t_Title t))
         (filter (\<lambda>t. truthy_str (t_InfoHash t)
                     \<and> toLowerCase (str_or_empty (t_InfoHash t)) \<notin> personalHashes personalFiles)
            (map (\<lambda>k. last (filter (\<lambda>c. infohash_key c = k) (externalTorrents_of externalSources)))
               (first_occurrences (map infohash_key (externalTorrents_of externalSources)))))"
    by (simp only: combineAndMarkResults_def Let_def
        unique_characterised[of "externalTorrents_of externalSources"])
  have "filter (\<lambda>c. \<not> t_isPersonal c) (markedPersonal personalFiles) = []"
    by (simp add: markedPersonal_def filter_empty_conv)
  then show "distinct (map infohash_key
            (filter (\<lambda>c. \<not> t_isPersonal c) (combineAndMarkResults u personalFiles externalSources)))"
    using unique_distinct[of "externalTorrents_of externalSources"]
    by (simp add: combineAndMarkResults_def Let_def distinct_map_filter_keys)
next
  assume "t \<in> set (combineAndMarkResults u personalFiles externalSources) \<and> \<not> t_isPersonal t"
  then show "t = last (filter (\<lambda>c. infohash_key c = infohash_key t) (externalTorrents_of externalSources))"
    using combine_external_last[of t u personalFiles externalSources] by blast
qed

lemma sample_combined:
  "combineAndMarkResults sample_utils [] [[first_candidate], [second_candidate]] = [second_candidate]"
  by (simp add: combineAndMarkResults_def Let_def markedPersonal_def externalTorrents_of_def
      uniqueExternalTorrents_def js_new_Map_def js_map_values_def infohash_key_def personalHashes_def
      first_candidate_def second_candidate_def empty_torrent_def sample_utils_def truthy_str_def
      toLowerCase_def toLowerCase_char_def List.map_filter_def)

lemma sample_combined_three:
  "combineAndMarkResults sample_utils [] [[first_candidate, third_candidate], [second_candidate]]
     = [second_candidate, third_candidate]"
  by (simp add: combineAndMarkResults_def Let_def markedPersonal_def externalTorrents_of_def
      uniqueExternalTorrents_def js_new_Map_def js_map_values_def infohash_key_def personalHashes_def
      first_candidate_def second_candidate_def third_candidate_def empty_torrent_def sample_utils_def
      truthy_str_def toLowerCase_def toLowerCase_char_def List.map_filter_def)

theorem aggregation_first_occurrence_counterexample:
  "combineAndMarkResults sample_utils [] [[first_candidate], [second_candidate]] = [second_candidate]
   \<and> infohash_key first_candidate = infohash_key second_candidate
   \<and> t_Title first_candidate \<noteq> t_Title second_candidate"
  by (simp add: sample_combined)
     (simp add: infohash_key_def first_candidate_def second_candidate_def empty_torrent_def
        toLowerCase_def toLowerCase_char_def)

theorem aggregation_keeps_last_occurrence_witness:
  "combineAndMarkResults sample_utils [] [[first_candidate, third_candidate], [second_candidate]]
     = [second_candidate, third_candidate]
   \<and> uniqueExternalTorrents [first_candidate, third_candidate, second_candidate]
       = [second_candidate, third_candidate]
   \<and> second_candidate = last (filter (\<lambda>c. infohash_key c = infohash_key second_candidate)
       (externalTorrents_of [[first_candidate, third_candidate], [second_candidate]]))
   \<and> distinct (map infohash_key (filter (\<lambda>c. \<not> t_isPersonal c)
        (combineAndMarkResults sample_utils [] [[first_candidate, third_candidate], [second_candidate]])))"
proof -
  note at_sample =
    aggregation_keeps_last_occurrence
      [of "[first_candidate, third_candidate, second_candidate]" sample_utils "[]"
          "[[first_candidate, third_candidate], [second_candidate]]" second_candidate]
  have keys:
    "infohash_key first_candidate = Some ''c9e15763f722f23e98a29decdfae341b98d53056''"
    "infohash_key second_candidate = Some ''c9e15763f722f23e98a29decdfae341b98d53056''"
    "infohash_key third_candidate = Some ''0a1b2c3d4e5f60718293a4b5c6d7e8f901234567''"
    by (simp_all add: infohash_key_def first_candidate_def second_candidate_def third_candidate_def
        empty_torrent_def toLowerCase_def toLowerCase_char_def)
  have unique: "uniqueExternalTorrents [first_candidate, third_candidate, second_candidate]
       = [second_candidate, third_candidate]"
    using at_sample by (simp add: keys)
  have m: "second_candidate
             \<in> set (combineAndMarkResults sample_utils [] [[first_candidate, third_candidate], [second_candidate]])"
    by (simp add: sample_combined_three)
  have p: "\<not> t_isPersonal second_candidate"
    by (simp add: second_candidate_def empty_torrent_def)
  have last_one: "second_candidate = last (filter (\<lambda>c. infohash_key c = infohash_key second_candidate)
       (externalTorrents_of [[first_candidate, third_candidate], [second_candidate]]))"
    using at_sample m p by blast
  have no_two: "distinct (map infohash_key (filter (\<lambda>c. \<not> t_isPersonal c)
        (combineAndMarkResults sample_utils [] [[first_candidate, third_candidate], [second_candidate]])))"
    using at_sample by blast
  show ?thesis
    by (intro conjI sample_combined_three unique last_one no_two)
qed

section \<open>Properties of the verification\<close>

lemma info_calls_record:
  "info_calls (events (record_event e st))
     = info_calls (events st) + (case e of RdCall (TorrentInfo _) \<Rightarrow> 1 | _ \<Rightarrow> 0)"
  by (simp add: info_calls_def record_event_def split: event.splits rd_call.splits)

lemma info_calls_addHashToMongo:
  "info_calls (events (addHashToMongo m h f s d st)) = info_calls (events st)"
  by (simp add: addHashToMongo_def info_calls_record)

lemma record_event_toDelete:
  "events (record_event e (st\<lparr>torrentIdsToDelete := x\<rparr>)) = events (record_event e st)"
  by (simp add: record_event_def)

text \<open>Whatever the provider answers, one verification reads the status at most once.\<close>

lemma liveCheckHash_at_most_one_read:
  "info_calls (events (snd (liveCheckHash u mcfg P hash st))) \<le> info_calls (events st) + 1"
  unfolding liveCheckHash_def Let_def
  by (simp add: info_calls_record info_calls_addHashToMongo record_event_toDelete
      split: option.split sum.split)

text \<open>
  Claim C5. When the magnet is accepted, the files are selected and the one status
  read gives a value outside \<open>downloaded\<close> and \<open>finished\<close> (\<open>magnet_error\<close>, say, or no
  status at all), \<open>liveCheckHash\<close> returns \<open>false\<close> whatever the file listing holds, and
  its calls are exactly \<open>addMagnet\<close>, \<open>selectFiles\<close> and a single \<open>info\<close>: the status is
  not read again and nothing is written to the store.
\<close>

theorem non_terminal_status_is_not_cached:
  assumes "rd_addMagnet P (events st) (''magnet:?xt=urn:btih:'' @ hash) = Inr (Some torrentId)"
    and "torrentId \<noteq> []"
    and "rd_selectFiles P (events st @ [RdCall (AddMagnet (''magnet:?xt=urn:btih:'' @ hash))]) torrentId
           = Inr ()"
    and "\<not> terminal_status
             (str_or (case rd_info P (events st @ [RdCall (AddMagnet (''magnet:?xt=urn:btih:'' @ hash)),
                                                    RdCall (SelectFiles torrentId)]) torrentId of
                        Inr (Some info) \<Rightarrow> i_status info
                      | _ \<Rightarrow> None) ''unknown'')"
  shows "fst (liveCheckHash u mcfg P hash st) = False
       \<and> events (snd (liveCheckHash u mcfg P hash st))
           = events st @ [RdCall (AddMagnet (''magnet:?xt=urn:btih:'' @ hash)),
                          RdCall (SelectFiles torrentId), RdCall (TorrentInfo torrentId)]"
  using assms
  by (auto simp: liveCheckHash_def Let_def record_event_def str_or_null_def
      split: option.splits sum.splits)

theorem non_terminal_status_is_not_cached_witness:
  "fst (liveCheckHash sample_utils mongo_on (sample_provider magnet_error_info) sample_hash initial_state)
     = False
   \<and> events (snd (liveCheckHash sample_utils mongo_on (sample_provider magnet_error_info) sample_hash
        initial_state))
       = [RdCall (AddMagnet (''magnet:?xt=urn:btih:'' @ sample_hash)),
          RdCall (SelectFiles ''QX7ZV2JKRD4LM''), RdCall (TorrentInfo ''QX7ZV2JKRD4LM'')]"
  using non_terminal_status_is_not_cached
          [of "sample_provider magnet_error_info" initial_state sample_hash "''QX7ZV2JKRD4LM''"
              sample_utils mongo_on]
  by (simp add: sample_provider_def magnet_error_info_def initial_state_def terminal_status_def
      str_or_def)

text \<open>
  Claim C4. When the magnet is accepted, the files are selected and the listing the
  provider gives holds a file whose path ends, in any letter case, with one of \<open>.iso\<close>,
  \<open>.exe\<close>, \<open>.zip\<close>, \<open>.rar\<close>, \<open>.7z\<close> and \<open>.scr\<close>, the handler of \<open>searchRealDebridTorrents\<close>
  returns \<open>false\<close>, whatever the status and whatever else the listing holds (a valid
  video of 1.2 GiB, say), and its calls are exactly \<open>addMagnet\<close>, \<open>selectFiles\<close> and one
  \<open>info\<close>: nothing is written to the store.
\<close>

theorem junk_file_is_not_cached:
  assumes "rd_addMagnet P (events st) (''magnet:?xt=urn:btih:'' @ hash) = Inr (Some torrentId)"
    and "torrentId \<noteq> []"
    and "rd_selectFiles P (events st @ [RdCall (AddMagnet (''magnet:?xt=urn:btih:'' @ hash))]) torrentId
           = Inr ()"
    and "rd_info P (events st @ [RdCall (AddMagnet (''magnet:?xt=urn:btih:'' @ hash)),
                                 RdCall (SelectFiles torrentId)]) torrentId = Inr (Some info)"
    and "i_files info = Some files"
    and "f \<in> set files"
    and "ext \<in> set [''.iso'', ''.exe'', ''.zip'', ''.rar'', ''.7z'', ''.scr'']"
    and "endsWith (toLowerCase (f_path f)) ext"
  shows "fst (liveCheckHash u mcfg P hash st) = False
       \<and> events (snd (liveCheckHash u mcfg P hash st))
           = events st @ [RdCall (AddMagnet (''magnet:?xt=urn:btih:'' @ hash)),
                          RdCall (SelectFiles torrentId), RdCall (TorrentInfo torrentId)]"
proof -
  have junk: "list_ex isJunk files"
    using assms(6,7,8) unfolding list_ex_iff isJunk_def JUNK_EXTENSIONS_def by blast
  show ?thesis
    using assms(1-5) junk
    by (simp add: liveCheckHash_def Let_def record_event_def str_or_null_def)
qed

text \<open>
  The two sample listings are of a downloaded torrent and hold the valid video of
  1.2 GiB; the video alone is accepted.
\<close>

lemma sample_listing_has_video:
  "terminal_status (str_or (i_status downloaded_with_rar) ''unknown'')
   \<and> terminal_status (str_or (i_status downloaded_with_scr) ''unknown'')
   \<and> isValidVideo sample_utils (f_path video_file) (f_bytes video_file) MIN_VIDEO_BYTES"
  by code_simp

lemma sample_video_only_is_cached:
  "fst (liveCheckHash sample_utils mongo_on (sample_provider downloaded_video_only) sample_hash
          initial_state) = True"
  by code_simp

theorem junk_file_is_not_cached_witness:
  "fst (liveCheckHash sample_utils mongo_on (sample_provider downloaded_with_rar) sample_hash initial_state)
     = False
   \<and> events (snd (liveCheckHash sample_utils mongo_on (sample_provider downloaded_with_rar) sample_hash
        initial_state))
       = [RdCall (AddMagnet (''magnet:?xt=urn:btih:'' @ sample_hash)),
          RdCall (SelectFiles ''QX7ZV2JKRD4LM''), RdCall (TorrentInfo ''QX7ZV2JKRD4LM'')]
   \<and> fst (liveCheckHash sample_utils mongo_on (sample_provider downloaded_with_scr) sample_hash
            initial_state) = False
   \<and> i_files downloaded_with_rar = Some [rar_file, video_file]
   \<and> i_files downloaded_with_scr = Some [video_file, scr_file]
   \<and> terminal_status (str_or (i_status downloaded_with_rar) ''unknown'')
   \<and> terminal_status (str_or (i_status downloaded_with_scr) ''unknown'')
   \<and> isValidVideo sample_utils (f_path video_file) (f_bytes video_file) MIN_VIDEO_BYTES"
proof -
  have rar: "endsWith (toLowerCase (f_path rar_file)) ''.rar''"
    by code_simp
  have scr: "endsWith (toLowerCase (f_path scr_file)) ''.scr''"
    by code_simp
  have with_rar:
    "fst (liveCheckHash sample_utils mongo_on (sample_provider downloaded_with_rar) sample_hash
            initial_state) = False
     \<and> events (snd (liveCheckHash sample_utils mongo_on (sample_provider downloaded_with_rar)
          sample_hash initial_state))
         = [RdCall (AddMagnet (''magnet:?xt=urn:btih:'' @ sample_hash)),
            RdCall (SelectFiles ''QX7ZV2JKRD4LM''), RdCall (TorrentInfo ''QX7ZV2JKRD4LM'')]"
    using junk_file_is_not_cached
            [of "sample_provider downloaded_with_rar" initial_state sample_hash "''QX7ZV2JKRD4LM''"
                downloaded_with_rar "[rar_file, video_file]" rar_file "''.rar''" sample_utils mongo_on]
          rar
    by (simp add: sample_provider_def downloaded_with_rar_def initial_state_def)
  have with_scr:
    "fst (liveCheckHash sample_utils mongo_on (sample_provider downloaded_with_scr) sample_hash
            initial_state) = False"
    using junk_file_is_not_cached
            [of "sample_provider downloaded_with_scr" initial_state sample_hash "''QX7ZV2JKRD4LM''"
                downloaded_with_scr "[video_file, scr_file]" scr_file "''.scr''" sample_utils mongo_on]
          scr
    by (simp add: sample_provider_def downloaded_with_scr_def initial_state_def)
  have files: "i_files downloaded_with_rar = Some [rar_file, video_file]"
    "i_files downloaded_with_scr = Some [video_file, scr_file]"
    by (simp_all add: downloaded_with_rar_def downloaded_with_scr_def)
  show ?thesis
    using with_rar with_scr files sample_listing_has_video by blast
qed

text \<open>When the handler accepts, the listing it read had a valid video and no junk.\<close>

lemma liveCheckHash_True_no_junk:
  assumes "fst (liveCheckHash u mcfg P hash st) = True"
  shows "\<exists>torrentId info files.
           rd_info P (events st @ [RdCall (AddMagnet (''magnet:?xt=urn:btih:'' @ hash)),
                                   RdCall (SelectFiles torrentId)]) torrentId = Inr (Some info)
         \<and> terminal_status (str_or (i_status info) ''unknown'')
         \<and> i_files info = Some files \<and> \<not> list_ex isJunk files
         \<and> list_ex (\<lambda>f. isValidVideo u (f_path f) (f_bytes f) MIN_VIDEO_BYTES) files"
  using assms
  by (auto simp: liveCheckHash_def Let_def record_event_def str_or_null_def
      split: option.splits sum.splits if_splits)

text \<open>
  The handler that \<open>searchTorrents\<close> builds is never run: \<open>searchTorrents\<close> reads
  \<open>externalTorrents\<close>, which its scope does not declare, before it passes the handler on.
  Its junk test is the pattern \<open>/\.(iso|exe|zip|rar|7z)$/i\<close>, which has no \<open>.scr\<close>: run by
  itself on the two sample listings, it would reject the one with the \<open>.rar\<close> file and
  accept the one with the \<open>.scr\<close> file.
\<close>

lemma searchTorrents_handler_on_samples:
  "fst (liveCheckHash_searchTorrents sample_utils (sample_provider downloaded_with_rar) sample_hash
          initial_state) = False
   \<and> fst (liveCheckHash_searchTorrents sample_utils (sample_provider downloaded_with_scr) sample_hash
            initial_state) = True"
  by code_simp

section \<open>Properties of pack inspection\<close>

lemma js_map_set_length: "length (js_map_set k v m) \<le> Suc (length m)"
  by (induction m) auto

lemma pack_loop_bound:
  "int (length (fst (batchCheckSeasonPacks_loop u P maxPacks season episode hashes packResults n st)))
     \<le> int (length packResults) + max 0 (maxPacks - n)"
proof (induction hashes arbitrary: packResults n st)
  case Nil
  then show ?case by simp
next
  case (Cons hash hashes)
  show ?case
  proof (cases "n \<ge> maxPacks")
    case True
    then show ?thesis by simp
  next
    case False
    obtain r st' where r: "inspect_pack u P season episode hash st = (r, st')"
      by (cases "inspect_pack u P season episode hash st")
    show ?thesis
    proof (cases r)
      case None
      then show ?thesis using False r Cons.IH[of packResults n st'] by simp
    next
      case (Some episodeResult)
      have "int (length (js_map_set hash [episodeResult] packResults)) \<le> int (length packResults) + 1"
        using js_map_set_length[of hash "[episodeResult]" packResults] by simp
      then show ?thesis
        using False r Some Cons.IH[of "js_map_set hash [episodeResult] packResults" "n + 1" st']
        by simp
    qed
  qed
qed

text \<open>
  What the counter does bound: the packs that give an episode are at most the cap, and
  once that many have given one, the hashes that remain cause no call.
\<close>

lemma pack_results_capped:
  "int (length (fst (batchCheckSeasonPacks cfg u P hashes season episode st)))
     \<le> max 0 (num_or (MAX_PACKS_TO_INSPECT cfg) 3)"
  using pack_loop_bound[of u P "num_or (MAX_PACKS_TO_INSPECT cfg) 3" season episode hashes "[]" 0 st]
  by (simp add: batchCheckSeasonPacks_def)

lemma pack_loop_stops_at_cap:
  "maxPacks \<le> n \<Longrightarrow>
     batchCheckSeasonPacks_loop u P maxPacks season episode hashes packResults n st = (packResults, st)"
  by (cases hashes) simp_all

lemma sample_no_match: "\<not> pack_file_matches sample_utils (Some 1) (Some 2) video_file"
  by (simp add: pack_file_matches_def sample_utils_def strict_eq_num_def Let_def)

lemma sample_inspect_pack:
  "inspect_pack sample_utils (sample_provider downloaded_video_only) (Some 1) (Some 2) hash st =
     (None,
      st\<lparr>events := events st @ [RdCall TorrentsGet, RdCall (AddMagnet (''magnet:?xt=urn:btih:'' @ hash)),
                                 RdCall (SelectFiles ''QX7ZV2JKRD4LM''), RdCall (TorrentInfo ''QX7ZV2JKRD4LM'')],
         torrentIdsToDelete := set_add ''QX7ZV2JKRD4LM'' (torrentIdsToDelete st)\<rparr>)"
  by (simp add: inspect_pack_def inspect_pack_try_def inspect_files_def sample_provider_def
      downloaded_video_only_def sample_no_match js_sort_def record_event_def str_or_null_def Let_def)

lemma info_calls_append:
  "info_calls (es @ [RdCall TorrentsGet, RdCall (AddMagnet m), RdCall (SelectFiles i), RdCall (TorrentInfo j)])
     = Suc (info_calls es)"
  by (simp add: info_calls_def)

text \<open>
  Claim C6. \<open>inspectedCount\<close> is compared with \<open>MAX_PACKS_TO_INSPECT\<close> before each pack
  but is incremented only for a pack in which a file matches. With the default cap of
  3 and four pack hashes of which none holds the episode, all four packs are added to
  the provider and have their file listing read, and no result comes back.
\<close>

theorem pack_inspection_reads_past_the_cap:
  "num_or (MAX_PACKS_TO_INSPECT sample_config) 3 = 3
   \<and> info_calls (events (snd (batchCheckSeasonPacks sample_config sample_utils
        (sample_provider downloaded_video_only) four_pack_hashes (Some 1) (Some 2) initial_state))) = 4
   \<and> fst (batchCheckSeasonPacks sample_config sample_utils
        (sample_provider downloaded_video_only) four_pack_hashes (Some 1) (Some 2) initial_state) = []"
  by (simp add: batchCheckSeasonPacks_def sample_config_def num_or_def four_pack_hashes_def
      sample_inspect_pack info_calls_append)
     (simp add: initial_state_def info_calls_def)

section \<open>Properties of the cache store\<close>

lemma normalised_hashes_subset:
  "set (normalised_hashes hashes) \<subseteq> toLowerCase ` {h. Some h \<in> set hashes}"
  by (auto simp: normalised_hashes_def str_or_empty_def toLowerCase_def split: option.splits)

lemma getCachedHashes_found:
  "getCachedHashes cfg be service (Some hashes) = Inr found \<Longrightarrow> found \<subseteq> set (normalised_hashes hashes)"
  by (auto simp: getCachedHashes_def Let_def split: if_splits sum.splits option.splits)

lemma sample_lookup:
  "getCachedHashes mongo_on store_up (Some ''realdebrid'')
     (Some [Some ''C9E15763F722F23E98A29DECDFAE341B98D53056''])
   = Inr {''c9e15763f722f23e98a29decdfae341b98d53056''}"
  by (simp add: getCachedHashes_def mongo_on_def store_up_def stored_doc_def isEnabled_def truthy_str_def
      getCollection_def initMongo_def normalised_hashes_def toLowerCase_def toLowerCase_char_def
      str_or_empty_def)

text \<open>
  Claim C8, as amended. Every hash \<open>getCachedHashes\<close> returns is the lower-case form of a
  requested hash, so for a request in lower case the result is a subset of the
  request; and an empty or absent request gives the empty set when the store is
  disabled or its collection is obtained. (A request in upper case gets its hash back
  in lower case, which is not among the strings requested; and with the store enabled
  and the connection refused the call rejects before it looks at the request.)
\<close>

theorem getCachedHashes_subset_of_lowercased:
  "(getCachedHashes cfg be service (Some hashes) = Inr found \<longrightarrow>
      found \<subseteq> toLowerCase ` {h. Some h \<in> set hashes})
   \<and> (getCachedHashes cfg be service (Some hashes) = Inr found
        \<and> (\<forall>h. Some h \<in> set hashes \<longrightarrow> toLowerCase h = h) \<longrightarrow>
      found \<subseteq> {h. Some h \<in> set hashes})
   \<and> ((\<not> isEnabled cfg \<or> connect_error be = None) \<and> (requested = None \<or> requested = Some []) \<longrightarrow>
      getCachedHashes cfg be service requested = Inr {})"
proof (intro conjI impI)
  assume "getCachedHashes cfg be service (Some hashes) = Inr found"
  then show "found \<subseteq> toLowerCase ` {h. Some h \<in> set hashes}"
    using getCachedHashes_found normalised_hashes_subset by blast
next
  assume a: "getCachedHashes cfg be service (Some hashes) = Inr found
        \<and> (\<forall>h. Some h \<in> set hashes \<longrightarrow> toLowerCase h = h)"
  then have "found \<subseteq> toLowerCase ` {h. Some h \<in> set hashes}"
    using getCachedHashes_found normalised_hashes_subset by blast
  moreover have "toLowerCase ` {h. Some h \<in> set hashes} = {h. Some h \<in> set hashes}"
    using a by force
  ultimately show "found \<subseteq> {h. Some h \<in> set hashes}" by simp
next
  assume "(\<not> isEnabled cfg \<or> connect_error be = None) \<and> (requested = None \<or> requested = Some [])"
  then show "getCachedHashes cfg be service requested = Inr {}"
    by (auto simp: getCachedHashes_def getCollection_def initMongo_def)
qed

theorem getCachedHashes_subset_counterexample:
  "getCachedHashes mongo_on store_up (Some ''realdebrid'')
     (Some [Some ''C9E15763F722F23E98A29DECDFAE341B98D53056''])
     = Inr {''c9e15763f722f23e98a29decdfae341b98d53056''}
   \<and> ''c9e15763f722f23e98a29decdfae341b98d53056'' \<notin> {''C9E15763F722F23E98A29DECDFAE341B98D53056''}
   \<and> getCachedHashes mongo_on store_down (Some ''realdebrid'') (Some [])
       = Inl (TransportError ''ECONNREFUSED'')"
  by (simp add: sample_lookup)
     (simp add: getCachedHashes_def mongo_on_def store_down_def isEnabled_def truthy_str_def
        getCollection_def initMongo_def)

lemma sample_lookup_lower:
  "getCachedHashes mongo_on store_up (Some ''RealDebrid'')
     (Some [Some ''c9e15763f722f23e98a29decdfae341b98d53056'', None,
            Some ''0a1b2c3d4e5f60718293a4b5c6d7e8f901234567''])
   = Inr {''c9e15763f722f23e98a29decdfae341b98d53056''}"
  by (simp add: getCachedHashes_def mongo_on_def store_up_def stored_doc_def isEnabled_def truthy_str_def
      getCollection_def initMongo_def normalised_hashes_def toLowerCase_def toLowerCase_char_def
      str_or_empty_def)

lemma sample_request_lower:
  "toLowerCase ''c9e15763f722f23e98a29decdfae341b98d53056'' = ''c9e15763f722f23e98a29decdfae341b98d53056''"
  "toLowerCase ''0a1b2c3d4e5f60718293a4b5c6d7e8f901234567'' = ''0a1b2c3d4e5f60718293a4b5c6d7e8f901234567''"
  by (simp_all add: toLowerCase_def toLowerCase_char_def)

theorem getCachedHashes_subset_of_lowercased_witness:
  "{''c9e15763f722f23e98a29decdfae341b98d53056''}
     \<subseteq> toLowerCase ` {h. Some h \<in> set [Some ''C9E15763F722F23E98A29DECDFAE341B98D53056'']}
   \<and> {''c9e15763f722f23e98a29decdfae341b98d53056''}
     \<subseteq> {h. Some h \<in> set [Some ''c9e15763f722f23e98a29decdfae341b98d53056'', None,
                                 Some ''0a1b2c3d4e5f60718293a4b5c6d7e8f901234567'']}
   \<and> getCachedHashes mongo_on store_up (Some ''realdebrid'') None = Inr {}
   \<and> getCachedHashes mongo_off store_down (Some ''realdebrid'') (Some []) = Inr {}"
proof -
  have on: "connect_error store_up = None" by (simp add: store_up_def)
  have off: "\<not> isEnabled mongo_off" by (simp add: isEnabled_def mongo_off_def)
  have lower:
    "\<forall>h. Some h \<in> set [Some ''c9e15763f722f23e98a29decdfae341b98d53056'', None,
                           Some ''0a1b2c3d4e5f60718293a4b5c6d7e8f901234567''] \<longrightarrow> toLowerCase h = h"
    using sample_request_lower by auto
  have upper_case:
    "{''c9e15763f722f23e98a29decdfae341b98d53056''}
       \<subseteq> toLowerCase ` {h. Some h \<in> set [Some ''C9E15763F722F23E98A29DECDFAE341B98D53056'']}"
    using getCachedHashes_subset_of_lowercased
            [of mongo_on store_up "Some ''realdebrid''" "[Some ''C9E15763F722F23E98A29DECDFAE341B98D53056'']"
                "{''c9e15763f722f23e98a29decdfae341b98d53056''}" None]
          sample_lookup
    by blast
  have lower_case:
    "{''c9e15763f722f23e98a29decdfae341b98d53056''}
       \<subseteq> {h. Some h \<in> set [Some ''c9e15763f722f23e98a29decdfae341b98d53056'', None,
                                   Some ''0a1b2c3d4e5f60718293a4b5c6d7e8f901234567'']}"
    using getCachedHashes_subset_of_lowercased
            [of mongo_on store_up "Some ''RealDebrid''"
                "[Some ''c9e15763f722f23e98a29decdfae341b98d53056'', None,
                  Some ''0a1b2c3d4e5f60718293a4b5c6d7e8f901234567'']"
                "{''c9e15763f722f23e98a29decdfae341b98d53056''}" None]
          sample_lookup_lower lower
    by blast
  have absent: "getCachedHashes mongo_on store_up (Some ''realdebrid'') None = Inr {}"
    using getCachedHashes_subset_of_lowercased [of mongo_on store_up "Some ''realdebrid''" "[]" "{}" None] on
    by blast
  have empty: "getCachedHashes mongo_off store_down (Some ''realdebrid'') (Some []) = Inr {}"
    using getCachedHashes_subset_of_lowercased
            [of mongo_off store_down "Some ''realdebrid''" "[]" "{}" "Some []"] off
    by blast
  show ?thesis
    by (intro conjI upper_case lower_case absent empty)
qed




text \<open>
  A second upsert of a stored hash, here in upper case, keeps \<open>createdAt\<close> and moves
  \<open>updatedAt\<close>.
\<close>

lemma sample_upsert_preserves_createdAt:
  "map doc_createdAt (snd (upsertCachedMagnet mongo_on store_up 1700000500000 (Some sample_record))) = [1700000000000]
   \<and> map doc_updatedAt (snd (upsertCachedMagnet mongo_on store_up 1700000500000 (Some sample_record))) = [1700000500000]
   \<and> fst (upsertCachedMagnet mongo_on store_up 1700000500000 (Some sample_record)) = Inr True"
  by (simp add: upsertCachedMagnet_def upsertCachedMagnet_try_def getCollection_def initMongo_def
      isEnabled_def truthy_str_def mongo_on_def store_up_def stored_doc_def sample_record_def
      str_or_empty_def toLowerCase_def toLowerCase_char_def set_fields_def Let_def)

end
